theory Spec2Isabelle
  imports Complex_Main "HOL-Library.Monad_Syntax"
begin

section \<open>Numbers, vectors and arrays\<close>

text \<open>
  The functions of \<^verbatim>\<open>utils.js\<close> compute on JavaScript numbers. They are embedded over
  the reals, that is in exact arithmetic: rounding (to double, and to single precision in
  a \<^verbatim>\<open>Float32Array\<close>) is not modelled. Two events of the source have no real number
  as their value and are the error value \<open>None\<close> of the embedding, which ends the
  computation where the source would go on with \<^verbatim>\<open>undefined\<close>, \<^verbatim>\<open>NaN\<close> or an infinity:
  \<^item> a quotient whose divisor is zero (\<open>fdiv\<close>);
  \<^item> a read past the end of an array (\<open>rd\<close>).
  A write past the end of a typed array is ignored by the source, and so it is by
  \<open>xs[i := v]\<close>.
\<close>

type_synonym vec3 = "real \<times> real \<times> real"
type_synonym vec4 = "real \<times> real \<times> real \<times> real"

definition fdiv :: "real \<Rightarrow> real \<Rightarrow> real option" where
  "fdiv a b = (if b = 0 then None else Some (a / b))"

definition rd :: "'a list \<Rightarrow> nat \<Rightarrow> 'a option" where
  "rd xs i = (if i < length xs then Some (xs ! i) else None)"

section \<open>computeTangents\<close>

subsection \<open>One triangle\<close>

text \<open>
  The locals of one iteration of the triangle loop: the two position-space edges and the
  UV deltas (lines 84 to 93 of \<^verbatim>\<open>utils.js\<close>).
\<close>

record tri =
  E1x :: real
  E1y :: real
  E1z :: real
  E2x :: real
  E2y :: real
  E2z :: real
  dU1 :: real
  dV1 :: real
  dU2 :: real
  dV2 :: real

definition tri_edges :: "real list \<Rightarrow> real list \<Rightarrow> nat \<Rightarrow> nat \<Rightarrow> nat \<Rightarrow> tri option" where
  "tri_edges positions uvs i0 i1 i2 = do {
     x0 \<leftarrow> rd positions (i0 * 3);
     y0 \<leftarrow> rd positions (i0 * 3 + 1);
     z0 \<leftarrow> rd positions (i0 * 3 + 2);
     x1 \<leftarrow> rd positions (i1 * 3);
     y1 \<leftarrow> rd positions (i1 * 3 + 1);
     z1 \<leftarrow> rd positions (i1 * 3 + 2);
     x2 \<leftarrow> rd positions (i2 * 3);
     y2 \<leftarrow> rd positions (i2 * 3 + 1);
     z2 \<leftarrow> rd positions (i2 * 3 + 2);
     u0 \<leftarrow> rd uvs (i0 * 2);
     v0 \<leftarrow> rd uvs (i0 * 2 + 1);
     u1 \<leftarrow> rd uvs (i1 * 2);
     v1 \<leftarrow> rd uvs (i1 * 2 + 1);
     u2 \<leftarrow> rd uvs (i2 * 2);
     v2 \<leftarrow> rd uvs (i2 * 2 + 1);
     Some \<lparr>E1x = x1 - x0, E1y = y1 - y0, E1z = z1 - z0,
           E2x = x2 - x0, E2y = y2 - y0, E2z = z2 - z0,
           dU1 = u1 - u0, dV1 = v1 - v0,
           dU2 = u2 - u0, dV2 = v2 - v0\<rparr>
   }"

definition denom :: "tri \<Rightarrow> real" where
  "denom d = dU1 d * dV2 d - dU2 d * dV1 d"

text \<open>
  Lines 97 to 103: the reciprocal of the determinant and the per-triangle tangent
  \<open>(Tx, Ty, Tz)\<close> and bitangent \<open>(Bx, By, Bz)\<close>.
\<close>

definition tri_TB :: "tri \<Rightarrow> (vec3 \<times> vec3) option" where
  "tri_TB d = do {
     r \<leftarrow> fdiv 1 (denom d);
     Some (((E1x d * dV2 d - E2x d * dV1 d) * r,
            (E1y d * dV2 d - E2y d * dV1 d) * r,
            (E1z d * dV2 d - E2z d * dV1 d) * r),
           ((E2x d * dU1 d - E1x d * dU2 d) * r,
            (E2y d * dU1 d - E1y d * dU2 d) * r,
            (E2z d * dU1 d - E1z d * dU2 d) * r))
   }"

text \<open>
  \<^verbatim>\<open>a[i * 3] += vx; a[i * 3 + 1] += vy; a[i * 3 + 2] += vz\<close> on a typed array.
\<close>

definition add3 :: "real list \<Rightarrow> nat \<Rightarrow> vec3 \<Rightarrow> real list" where
  "add3 a i v = (case v of (vx, vy, vz) \<Rightarrow>
     let a1 = a[i * 3 := a ! (i * 3) + vx];
         a2 = a1[i * 3 + 1 := a1 ! (i * 3 + 1) + vy]
     in a2[i * 3 + 2 := a2 ! (i * 3 + 2) + vz])"

text \<open>
  The body of the triangle loop on the pair (tangents, bitangents) of accumulators:
  \<^verbatim>\<open>if (denom === 0.0) continue;\<close> leaves them as they are.
\<close>

definition tri_step ::
  "real list \<Rightarrow> real list \<Rightarrow> nat \<Rightarrow> nat \<Rightarrow> nat \<Rightarrow> real list \<times> real list
     \<Rightarrow> (real list \<times> real list) option" where
  "tri_step positions uvs i0 i1 i2 acc = do {
     d \<leftarrow> tri_edges positions uvs i0 i1 i2;
     if denom d = 0 then Some acc
     else do {
       (T, B) \<leftarrow> tri_TB d;
       Some (add3 (add3 (add3 (fst acc) i0 T) i1 T) i2 T,
             add3 (add3 (add3 (snd acc) i0 B) i1 B) i2 B)
     }
   }"

text \<open>
  \<^verbatim>\<open>for (let i = 0; i < indices.length; i += 3)\<close>: the indices three at a time. A last
  group of one or two indices reads \<^verbatim>\<open>indices[i + 1]\<close> or \<^verbatim>\<open>indices[i + 2]\<close> past the end.
\<close>

fun accumulate ::
  "real list \<Rightarrow> real list \<Rightarrow> nat list \<Rightarrow> real list \<times> real list
     \<Rightarrow> (real list \<times> real list) option" where
  "accumulate positions uvs (i0 # i1 # i2 # rest) acc =
     tri_step positions uvs i0 i1 i2 acc \<bind> accumulate positions uvs rest"
| "accumulate positions uvs [] acc = Some acc"
| "accumulate positions uvs _ acc = None"

subsection \<open>The per-vertex pass\<close>

definition rd3 :: "real list \<Rightarrow> nat \<Rightarrow> vec3 option" where
  "rd3 a i = do {
     x \<leftarrow> rd a (i * 3);
     y \<leftarrow> rd a (i * 3 + 1);
     z \<leftarrow> rd a (i * 3 + 2);
     Some (x, y, z)
   }"

definition wr3 :: "real list \<Rightarrow> nat \<Rightarrow> vec3 \<Rightarrow> real list" where
  "wr3 a i v = (case v of (x, y, z) \<Rightarrow> a[i * 3 := x, i * 3 + 1 := y, i * 3 + 2 := z])"

text \<open>Lines 134 to 137: the accumulated vector minus its projection onto the normal.\<close>

definition ortho :: "vec3 \<Rightarrow> vec3 \<Rightarrow> vec3" where
  "ortho n t = (case n of (nx, ny, nz) \<Rightarrow> case t of (tx, ty, tz) \<Rightarrow>
     let NdotT = nx * tx + ny * ty + nz * tz
     in (tx - NdotT * nx, ty - NdotT * ny, tz - NdotT * nz))"

text \<open>Line 138: \<^verbatim>\<open>Math.sqrt(tx * tx + ty * ty + tz * tz)\<close>.\<close>

definition vlen :: "vec3 \<Rightarrow> real" where
  "vlen t = (case t of (tx, ty, tz) \<Rightarrow> sqrt (tx * tx + ty * ty + tz * tz))"

text \<open>Lines 134 to 143, the same for the tangent and (lines 151 to 160) the bitangent.\<close>

definition orthonormalize :: "vec3 \<Rightarrow> vec3 \<Rightarrow> vec3 option" where
  "orthonormalize n t =
     (let t' = ortho n t; tlen = vlen t'
      in if tlen > 0
         then (case t' of (tx, ty, tz) \<Rightarrow> do {
                 x \<leftarrow> fdiv tx tlen;
                 y \<leftarrow> fdiv ty tlen;
                 z \<leftarrow> fdiv tz tlen;
                 Some (x, y, z)
               })
         else Some t')"

definition finalize_vertex ::
  "real list \<Rightarrow> real list \<times> real list \<Rightarrow> nat \<Rightarrow> (real list \<times> real list) option" where
  "finalize_vertex normals acc i = do {
     n \<leftarrow> rd3 normals i;
     t \<leftarrow> rd3 (fst acc) i;
     t' \<leftarrow> orthonormalize n t;
     b \<leftarrow> rd3 (snd acc) i;
     b' \<leftarrow> orthonormalize n b;
     Some (wr3 (fst acc) i t', wr3 (snd acc) i b')
   }"

fun for_each :: "('s \<Rightarrow> nat \<Rightarrow> 's option) \<Rightarrow> nat list \<Rightarrow> 's \<Rightarrow> 's option" where
  "for_each f [] s = Some s"
| "for_each f (i # is) s = f s i \<bind> for_each f is"

text \<open>
  \<^verbatim>\<open>vertexCount = positions.length / 3\<close> is a quotient of numbers, not a truncating one.
  The arrays \<^verbatim>\<open>new Float32Array(vertexCount * 3)\<close> have \<^verbatim>\<open>positions.length\<close> elements,
  all zero, and \<^verbatim>\<open>for (let i = 0; i < vertexCount; i++)\<close> runs for the naturals \<open>i\<close> with
  \<open>3 * i < positions.length\<close>, which are those below \<open>(positions.length + 2) div 3\<close>.
\<close>

definition vertex_loop :: "real list \<Rightarrow> nat list" where
  "vertex_loop positions = [0 ..< (length positions + 2) div 3]"

definition computeTangents ::
  "real list \<Rightarrow> real list \<Rightarrow> real list \<Rightarrow> nat list \<Rightarrow> (real list \<times> real list) option" where
  "computeTangents positions normals uvs indices = do {
     acc \<leftarrow> accumulate positions uvs indices
              (replicate (length positions) 0, replicate (length positions) 0);
     for_each (finalize_vertex normals) (vertex_loop positions) acc
   }"

section \<open>The matrix library\<close>

text \<open>
  \<^verbatim>\<open>utils.js\<close> imports \<^verbatim>\<open>vec4\<close> and \<^verbatim>\<open>mat4\<close> from the package \<^verbatim>\<open>wgpu-matrix\<close>, whose
  code is not part of the repository. A matrix is an array of 16 numbers in column-major
  order; the field \<open>mcr\<close> of the record is its element \<open>4 * c + r\<close> (column \<open>c\<close>, row
  \<open>r\<close>), as the package names its locals. \<^verbatim>\<open>mat4.clone\<close> is a copy, the identity on
  values.
\<close>

record mat4 =
  m00 :: real
  m01 :: real
  m02 :: real
  m03 :: real
  m10 :: real
  m11 :: real
  m12 :: real
  m13 :: real
  m20 :: real
  m21 :: real
  m22 :: real
  m23 :: real
  m30 :: real
  m31 :: real
  m32 :: real
  m33 :: real

text \<open>
  Modelled from the spec: \<^verbatim>\<open>vec4.transformMat4(v, m)\<close> of wgpu-matrix, the spec's
  "transform by" a matrix: the product of the matrix and the column vector.
\<close>

definition transformMat4 :: "vec4 \<Rightarrow> mat4 \<Rightarrow> vec4" where
  "transformMat4 v m = (case v of (x, y, z, w) \<Rightarrow>
     (m00 m * x + m10 m * y + m20 m * z + m30 m * w,
      m01 m * x + m11 m * y + m21 m * z + m31 m * w,
      m02 m * x + m12 m * y + m22 m * z + m32 m * w,
      m03 m * x + m13 m * y + m23 m * z + m33 m * w))"

text \<open>Modelled from the spec: \<^verbatim>\<open>mat4.identity()\<close> of wgpu-matrix, the spec's "identity".\<close>

definition mat4_identity :: mat4 where
  "mat4_identity =
     \<lparr>m00 = 1, m01 = 0, m02 = 0, m03 = 0,
      m10 = 0, m11 = 1, m12 = 0, m13 = 0,
      m20 = 0, m21 = 0, m22 = 1, m23 = 0,
      m30 = 0, m31 = 0, m32 = 0, m33 = 1\<rparr>"

text \<open>
  Modelled from the spec: \<^verbatim>\<open>mat4.translate(m, v)\<close> of wgpu-matrix, the spec's "translate
  by": \<open>m\<close> times the translation by \<open>v\<close>, which changes the last column only.
\<close>

definition mat4_translate :: "mat4 \<Rightarrow> vec3 \<Rightarrow> mat4" where
  "mat4_translate m v = (case v of (v0, v1, v2) \<Rightarrow>
     m\<lparr>m30 := m00 m * v0 + m10 m * v1 + m20 m * v2 + m30 m,
       m31 := m01 m * v0 + m11 m * v1 + m21 m * v2 + m31 m,
       m32 := m02 m * v0 + m12 m * v1 + m22 m * v2 + m32 m,
       m33 := m03 m * v0 + m13 m * v1 + m23 m * v2 + m33 m\<rparr>)"

text \<open>
  Modelled from the spec: \<^verbatim>\<open>mat4.rotateY(m, angle)\<close> of wgpu-matrix, the spec's "rotate
  about the vertical (Y) axis": \<open>m\<close> times the rotation, which changes the first and the
  third column.
\<close>

definition mat4_rotateY :: "mat4 \<Rightarrow> real \<Rightarrow> mat4" where
  "mat4_rotateY m angle =
     (let c = cos angle; s = sin angle
      in m\<lparr>m00 := c * m00 m - s * m20 m,
           m01 := c * m01 m - s * m21 m,
           m02 := c * m02 m - s * m22 m,
           m03 := c * m03 m - s * m23 m,
           m20 := c * m20 m + s * m00 m,
           m21 := c * m21 m + s * m01 m,
           m22 := c * m22 m + s * m02 m,
           m23 := c * m23 m + s * m03 m\<rparr>)"

text \<open>
  Modelled from the spec: \<^verbatim>\<open>mat4.rotate(m, axis, angle)\<close> of wgpu-matrix, the spec's
  "rotate about the local Z axis" when the axis is \<open>(0, 0, 1)\<close>: \<open>m\<close> times the rotation
  about the normalised axis. The one call of \<^verbatim>\<open>utils.js\<close> passes the constant axis
  \<open>(0, 0, 1)\<close>, of length 1, so the quotients by the length have a divisor that is not
  zero.
\<close>

definition mat4_rotate :: "mat4 \<Rightarrow> vec3 \<Rightarrow> real \<Rightarrow> mat4" where
  "mat4_rotate m axis angle = (case axis of (ax, ay, az) \<Rightarrow>
     let n = sqrt (ax * ax + ay * ay + az * az);
         x = ax / n; y = ay / n; z = az / n;
         xx = x * x; yy = y * y; zz = z * z;
         c = cos angle; s = sin angle;
         oneMinusCosine = 1 - c;
         r00 = xx + (1 - xx) * c;
         r01 = x * y * oneMinusCosine + z * s;
         r02 = x * z * oneMinusCosine - y * s;
         r10 = x * y * oneMinusCosine - z * s;
         r11 = yy + (1 - yy) * c;
         r12 = y * z * oneMinusCosine + x * s;
         r20 = x * z * oneMinusCosine + y * s;
         r21 = y * z * oneMinusCosine - x * s;
         r22 = zz + (1 - zz) * c
     in m\<lparr>m00 := r00 * m00 m + r01 * m10 m + r02 * m20 m,
          m01 := r00 * m01 m + r01 * m11 m + r02 * m21 m,
          m02 := r00 * m02 m + r01 * m12 m + r02 * m22 m,
          m03 := r00 * m03 m + r01 * m13 m + r02 * m23 m,
          m10 := r10 * m00 m + r11 * m10 m + r12 * m20 m,
          m11 := r10 * m01 m + r11 * m11 m + r12 * m21 m,
          m12 := r10 * m02 m + r11 * m12 m + r12 * m22 m,
          m13 := r10 * m03 m + r11 * m13 m + r12 * m23 m,
          m20 := r20 * m00 m + r21 * m10 m + r22 * m20 m,
          m21 := r20 * m01 m + r21 * m11 m + r22 * m21 m,
          m22 := r20 * m02 m + r21 * m12 m + r22 * m22 m,
          m23 := r20 * m03 m + r21 * m13 m + r22 * m23 m\<rparr>)"

text \<open>
  Modelled from the spec: \<^verbatim>\<open>mat4.invert(m)\<close> of wgpu-matrix, the spec's "inverse
  transform": the cofactors \<open>t0 .. t3\<close> of the first column, the determinant
  \<open>m00 * t0 + m10 * t1 + m20 * t2 + m30 * t3\<close> and the adjugate times its reciprocal. The
  spec has the inverse of a singular transform undefined; the reciprocal of the zero
  determinant is the error value.
\<close>

text \<open>The determinant, as \<^verbatim>\<open>mat4.invert\<close> computes it before taking its reciprocal.\<close>

definition mat4_det :: "mat4 \<Rightarrow> real" where
  "mat4_det m =
     (let tmp0 = m22 m * m33 m; tmp1 = m32 m * m23 m; tmp2 = m12 m * m33 m;
          tmp3 = m32 m * m13 m; tmp4 = m12 m * m23 m; tmp5 = m22 m * m13 m;
          tmp6 = m02 m * m33 m; tmp7 = m32 m * m03 m; tmp8 = m02 m * m23 m;
          tmp9 = m22 m * m03 m; tmp10 = m02 m * m13 m; tmp11 = m12 m * m03 m;
          t0 = (tmp0 * m11 m + tmp3 * m21 m + tmp4 * m31 m)
             - (tmp1 * m11 m + tmp2 * m21 m + tmp5 * m31 m);
          t1 = (tmp1 * m01 m + tmp6 * m21 m + tmp9 * m31 m)
             - (tmp0 * m01 m + tmp7 * m21 m + tmp8 * m31 m);
          t2 = (tmp2 * m01 m + tmp7 * m11 m + tmp10 * m31 m)
             - (tmp3 * m01 m + tmp6 * m11 m + tmp11 * m31 m);
          t3 = (tmp5 * m01 m + tmp8 * m11 m + tmp11 * m21 m)
             - (tmp4 * m01 m + tmp9 * m11 m + tmp10 * m21 m)
      in m00 m * t0 + m10 m * t1 + m20 m * t2 + m30 m * t3)"

text \<open>
  Modelled from the spec: \<^verbatim>\<open>mat4.invert(m)\<close> of wgpu-matrix itself, with the locals of
  the package: the result is \<open>None\<close> for a singular matrix, where the package returns
  entries that are infinite or \<^verbatim>\<open>NaN\<close>.
\<close>

definition mat4_invert :: "mat4 \<Rightarrow> mat4 option" where
  "mat4_invert m =
     (let tmp0 = m22 m * m33 m; tmp1 = m32 m * m23 m; tmp2 = m12 m * m33 m;
          tmp3 = m32 m * m13 m; tmp4 = m12 m * m23 m; tmp5 = m22 m * m13 m;
          tmp6 = m02 m * m33 m; tmp7 = m32 m * m03 m; tmp8 = m02 m * m23 m;
          tmp9 = m22 m * m03 m; tmp10 = m02 m * m13 m; tmp11 = m12 m * m03 m;
          tmp12 = m20 m * m31 m; tmp13 = m30 m * m21 m; tmp14 = m10 m * m31 m;
          tmp15 = m30 m * m11 m; tmp16 = m10 m * m21 m; tmp17 = m20 m * m11 m;
          tmp18 = m00 m * m31 m; tmp19 = m30 m * m01 m; tmp20 = m00 m * m21 m;
          tmp21 = m20 m * m01 m; tmp22 = m00 m * m11 m; tmp23 = m10 m * m01 m;
          t0 = (tmp0 * m11 m + tmp3 * m21 m + tmp4 * m31 m)
             - (tmp1 * m11 m + tmp2 * m21 m + tmp5 * m31 m);
          t1 = (tmp1 * m01 m + tmp6 * m21 m + tmp9 * m31 m)
             - (tmp0 * m01 m + tmp7 * m21 m + tmp8 * m31 m);
          t2 = (tmp2 * m01 m + tmp7 * m11 m + tmp10 * m31 m)
             - (tmp3 * m01 m + tmp6 * m11 m + tmp11 * m31 m);
          t3 = (tmp5 * m01 m + tmp8 * m11 m + tmp11 * m21 m)
             - (tmp4 * m01 m + tmp9 * m11 m + tmp10 * m21 m)
      in do {
        d \<leftarrow> fdiv 1 (m00 m * t0 + m10 m * t1 + m20 m * t2 + m30 m * t3);
        Some \<lparr>m00 = d * t0, m01 = d * t1, m02 = d * t2, m03 = d * t3,
              m10 = d * ((tmp1 * m10 m + tmp2 * m20 m + tmp5 * m30 m)
                       - (tmp0 * m10 m + tmp3 * m20 m + tmp4 * m30 m)),
              m11 = d * ((tmp0 * m00 m + tmp7 * m20 m + tmp8 * m30 m)
                       - (tmp1 * m00 m + tmp6 * m20 m + tmp9 * m30 m)),
              m12 = d * ((tmp3 * m00 m + tmp6 * m10 m + tmp11 * m30 m)
                       - (tmp2 * m00 m + tmp7 * m10 m + tmp10 * m30 m)),
              m13 = d * ((tmp4 * m00 m + tmp9 * m10 m + tmp10 * m20 m)
                       - (tmp5 * m00 m + tmp8 * m10 m + tmp11 * m20 m)),
              m20 = d * ((tmp12 * m13 m + tmp15 * m23 m + tmp16 * m33 m)
                       - (tmp13 * m13 m + tmp14 * m23 m + tmp17 * m33 m)),
              m21 = d * ((tmp13 * m03 m + tmp18 * m23 m + tmp21 * m33 m)
                       - (tmp12 * m03 m + tmp19 * m23 m + tmp20 * m33 m)),
              m22 = d * ((tmp14 * m03 m + tmp19 * m13 m + tmp22 * m33 m)
                       - (tmp15 * m03 m + tmp18 * m13 m + tmp23 * m33 m)),
              m23 = d * ((tmp17 * m03 m + tmp20 * m13 m + tmp23 * m23 m)
                       - (tmp16 * m03 m + tmp21 * m13 m + tmp22 * m23 m)),
              m30 = d * ((tmp14 * m22 m + tmp17 * m32 m + tmp13 * m12 m)
                       - (tmp16 * m32 m + tmp12 * m12 m + tmp15 * m22 m)),
              m31 = d * ((tmp20 * m32 m + tmp12 * m02 m + tmp19 * m22 m)
                       - (tmp18 * m22 m + tmp21 * m32 m + tmp13 * m02 m)),
              m32 = d * ((tmp18 * m12 m + tmp23 * m32 m + tmp15 * m02 m)
                       - (tmp22 * m32 m + tmp14 * m02 m + tmp19 * m12 m)),
              m33 = d * ((tmp22 * m22 m + tmp16 * m02 m + tmp21 * m12 m)
                       - (tmp20 * m12 m + tmp23 * m22 m + tmp17 * m02 m))\<rparr>
      })"

section \<open>project, unproject, unproject_vector\<close>

text \<open>
  \<^verbatim>\<open>tmp.map((x) => x / tmp[3])\<close>: every component, the fourth too, over the fourth
  component of the vector before the division.
\<close>

definition hdiv :: "vec4 \<Rightarrow> vec4 option" where
  "hdiv v = (case v of (x, y, z, w) \<Rightarrow> do {
     a \<leftarrow> fdiv x w;
     b \<leftarrow> fdiv y w;
     c \<leftarrow> fdiv z w;
     d \<leftarrow> fdiv w w;
     Some (a, b, c, d)
   })"

text \<open>
  Lines 15 to 20. A point is \<^verbatim>\<open>[x, y, z, w]\<close> and a viewport \<^verbatim>\<open>[x, y, width, height]\<close>;
  the loop \<^verbatim>\<open>for (let i = 0; i < 2; i++)\<close> rewrites the elements 0 and 1.
\<close>

definition project :: "vec4 \<Rightarrow> mat4 \<Rightarrow> vec4 \<Rightarrow> vec4 option" where
  "project p_obj MVP viewport = (case viewport of (vx, vy, vw, vh) \<Rightarrow> do {
     (t0, t1, t2, t3) \<leftarrow> hdiv (transformMat4 p_obj MVP);
     Some ((0.5 * t0 + 0.5) * vw + vx, (0.5 * t1 + 0.5) * vh + vy, t2, t3)
   })"

text \<open>
  Lines 28 to 35. \<^verbatim>\<open>mat4.clone(p_win)\<close> copies the four elements of the point, the only
  ones \<^verbatim>\<open>vec4.transformMat4\<close> reads.
\<close>

definition unproject :: "vec4 \<Rightarrow> mat4 \<Rightarrow> vec4 \<Rightarrow> vec4 option" where
  "unproject p_win MVP viewport =
     (case viewport of (vx, vy, vw, vh) \<Rightarrow> case p_win of (x, y, z, w) \<Rightarrow> do {
        MVP_inv \<leftarrow> mat4_invert MVP;
        q0 \<leftarrow> fdiv (2.0 * (x - vx)) vw;
        q1 \<leftarrow> fdiv (2.0 * (y - vy)) vh;
        hdiv (transformMat4 (q0 - 1.0, q1 - 1.0, z, w) MVP_inv)
      })"

text \<open>Lines 43 to 51: one projection of the origin, one unprojection.\<close>

definition unproject_vector :: "vec3 \<Rightarrow> mat4 \<Rightarrow> vec4 \<Rightarrow> vec4 option" where
  "unproject_vector vec_win MVP viewport = (case vec_win of (d0, d1, d2) \<Rightarrow> do {
     (o0, o1, o2, o3) \<leftarrow> project (0, 0, 0, 1) MVP viewport;
     unproject (o0 + d0, o1 + d1, o2 + d2, 1) MVP viewport
   })"

text \<open>
  The spec's words for \<^verbatim>\<open>unproject_vector\<close>, "unprojecting both the object-space origin
  and the origin-plus-delta, and returning the difference", to compare with the code.
\<close>

definition unproject_difference :: "vec3 \<Rightarrow> mat4 \<Rightarrow> vec4 \<Rightarrow> vec4 option" where
  "unproject_difference vec_win MVP viewport = (case vec_win of (d0, d1, d2) \<Rightarrow> do {
     (o0, o1, o2, o3) \<leftarrow> project (0, 0, 0, 1) MVP viewport;
     (a0, a1, a2, a3) \<leftarrow> unproject (o0 + d0, o1 + d1, o2 + d2, 1) MVP viewport;
     (b0, b1, b2, b3) \<leftarrow> unproject (o0, o1, o2, o3) MVP viewport;
     Some (a0 - b0, a1 - b1, a2 - b2, a3 - b3)
   })"

section \<open>computeBarrelPivot\<close>

record TankState =
  position :: vec3
  rotation :: real
  turretRotation :: real
  barrelElevation :: real

text \<open>\<^verbatim>\<open>[-v[0], -v[1], -v[2]]\<close>, as lines 181 and 187 write it.\<close>

definition neg3 :: "vec3 \<Rightarrow> vec3" where
  "neg3 v = (case v of (x, y, z) \<Rightarrow> (- x, - y, - z))"

text \<open>
  Lines 173 to 196. Each \<^verbatim>\<open>let\<close> of the source is a binding here, under the same name;
  \<^verbatim>\<open>position[0]\<close> and \<^verbatim>\<open>position[2]\<close> are the first and the third component.
\<close>

definition computeBarrelPivot :: "TankState \<Rightarrow> vec3 \<Rightarrow> vec3 \<Rightarrow> vec3 \<Rightarrow> vec3" where
  "computeBarrelPivot tankState turretPivot barrelPivot joinPivot =
     (let M_body = mat4_identity;
          M_body = mat4_translate M_body
                     (fst (position tankState), 0.46, snd (snd (position tankState)));
          M_body = mat4_rotateY M_body (rotation tankState);
          M_turret = M_body;
          M_turret = mat4_translate M_turret (neg3 turretPivot);
          M_turret = mat4_rotateY M_turret (turretRotation tankState);
          M_turret = mat4_translate M_turret turretPivot;
          M_barrel = M_turret;
          M_barrel = mat4_translate M_barrel (neg3 joinPivot);
          M_barrel = mat4_rotate M_barrel (0, 0, 1) (barrelElevation tankState);
          M_barrel = mat4_translate M_barrel joinPivot;
          localEnd = (fst barrelPivot, fst (snd barrelPivot) - 0.46, snd (snd barrelPivot), 1);
          worldEnd = transformMat4 localEnd M_barrel
      in (fst worldEnd, fst (snd worldEnd), fst (snd (snd worldEnd))))"

section \<open>computeBarrelPivot in the arithmetic of the code\<close>

text \<open>
  A JavaScript number is an IEEE double (53 significant bits); wgpu-matrix keeps its
  matrices and vectors in \<^verbatim>\<open>Float32Array\<close>s, whose elements have 24 significant
  bits. \<open>round_to p\<close> is the rounding to the nearest number of \<open>p\<close> significant bits, ties
  to the even significand (\<open>rne\<close>). The exponent is not bounded: overflow to an infinity,
  subnormal numbers, \<^verbatim>\<open>NaN\<close> and the sign of zero are not modelled.
\<close>

definition rne :: "real \<Rightarrow> int" where
  "rne q = (let f = \<lfloor>q\<rfloor>; r = q - of_int f
            in if r < 1 / 2 then f else if 1 / 2 < r then f + 1
               else if even f then f else f + 1)"

definition round_to :: "nat \<Rightarrow> real \<Rightarrow> real" where
  "round_to p x = (if x = 0 then 0 else
     let u = 2 powr of_int (\<lfloor>log 2 \<bar>x\<bar>\<rfloor> - (int p - 1))
     in of_int (rne (x / u)) * u)"

definition fl64 :: "real \<Rightarrow> real" where "fl64 = round_to 53"
definition fl32 :: "real \<Rightarrow> real" where "fl32 = round_to 24"

text \<open>
  The functions of the chain again, with the two roundings as parameters: \<open>d\<close> after every
  arithmetic operation on numbers, \<open>s\<close> at every store into a \<^verbatim>\<open>Float32Array\<close>. Operands
  are taken in the order of the source text, sums from left to right. Elements that a
  function copies from its argument matrix are single-precision values already.

  \<^verbatim>\<open>a0 * b0 + a1 * b1 + a2 * b2\<close>:
\<close>

definition sum_prod3 ::
  "(real \<Rightarrow> real) \<Rightarrow> real \<Rightarrow> real \<Rightarrow> real \<Rightarrow> real \<Rightarrow> real \<Rightarrow> real \<Rightarrow> real" where
  "sum_prod3 d a0 b0 a1 b1 a2 b2 = d (d (d (a0 * b0) + d (a1 * b1)) + d (a2 * b2))"

text \<open>
  Modelled from the spec: \<^verbatim>\<open>vec4.transformMat4\<close> of wgpu-matrix, whose result is a new
  \<^verbatim>\<open>Float32Array\<close>.
\<close>

definition transformMat4_fp :: "(real \<Rightarrow> real) \<Rightarrow> (real \<Rightarrow> real) \<Rightarrow> vec4 \<Rightarrow> mat4 \<Rightarrow> vec4" where
  "transformMat4_fp d s v m = (case v of (x, y, z, w) \<Rightarrow>
     (s (d (sum_prod3 d (m00 m) x (m10 m) y (m20 m) z + d (m30 m * w))),
      s (d (sum_prod3 d (m01 m) x (m11 m) y (m21 m) z + d (m31 m * w))),
      s (d (sum_prod3 d (m02 m) x (m12 m) y (m22 m) z + d (m32 m * w))),
      s (d (sum_prod3 d (m03 m) x (m13 m) y (m23 m) z + d (m33 m * w)))))"

text \<open>Modelled from the spec: \<^verbatim>\<open>mat4.translate\<close> of wgpu-matrix, with its roundings.\<close>

definition mat4_translate_fp :: "(real \<Rightarrow> real) \<Rightarrow> (real \<Rightarrow> real) \<Rightarrow> mat4 \<Rightarrow> vec3 \<Rightarrow> mat4" where
  "mat4_translate_fp d s m v = (case v of (v0, v1, v2) \<Rightarrow>
     m\<lparr>m30 := s (d (sum_prod3 d (m00 m) v0 (m10 m) v1 (m20 m) v2 + m30 m)),
       m31 := s (d (sum_prod3 d (m01 m) v0 (m11 m) v1 (m21 m) v2 + m31 m)),
       m32 := s (d (sum_prod3 d (m02 m) v0 (m12 m) v1 (m22 m) v2 + m32 m)),
       m33 := s (d (sum_prod3 d (m03 m) v0 (m13 m) v1 (m23 m) v2 + m33 m))\<rparr>)"

text \<open>
  Modelled from the spec: \<^verbatim>\<open>mat4.rotateY\<close> of wgpu-matrix, with its roundings.
  \<^verbatim>\<open>Math.cos\<close> and \<^verbatim>\<open>Math.sin\<close> are taken as the rounded cosine and sine; at the angle
  zero they are 1 and 0.
\<close>

definition mat4_rotateY_fp :: "(real \<Rightarrow> real) \<Rightarrow> (real \<Rightarrow> real) \<Rightarrow> mat4 \<Rightarrow> real \<Rightarrow> mat4" where
  "mat4_rotateY_fp d s m angle =
     (let c = d (cos angle); sn = d (sin angle)
      in m\<lparr>m00 := s (d (d (c * m00 m) - d (sn * m20 m))),
           m01 := s (d (d (c * m01 m) - d (sn * m21 m))),
           m02 := s (d (d (c * m02 m) - d (sn * m22 m))),
           m03 := s (d (d (c * m03 m) - d (sn * m23 m))),
           m20 := s (d (d (c * m20 m) + d (sn * m00 m))),
           m21 := s (d (d (c * m21 m) + d (sn * m01 m))),
           m22 := s (d (d (c * m22 m) + d (sn * m02 m))),
           m23 := s (d (d (c * m23 m) + d (sn * m03 m)))\<rparr>)"

text \<open>Modelled from the spec: \<^verbatim>\<open>mat4.rotate\<close> of wgpu-matrix, with its roundings.\<close>

definition mat4_rotate_fp ::
  "(real \<Rightarrow> real) \<Rightarrow> (real \<Rightarrow> real) \<Rightarrow> mat4 \<Rightarrow> vec3 \<Rightarrow> real \<Rightarrow> mat4" where
  "mat4_rotate_fp d s m axis angle = (case axis of (ax, ay, az) \<Rightarrow>
     let n = d (sqrt (d (d (d (ax * ax) + d (ay * ay)) + d (az * az))));
         x = d (ax / n); y = d (ay / n); z = d (az / n);
         xx = d (x * x); yy = d (y * y); zz = d (z * z);
         c = d (cos angle); sn = d (sin angle);
         oneMinusCosine = d (1 - c);
         r00 = d (xx + d (d (1 - xx) * c));
         r01 = d (d (d (x * y) * oneMinusCosine) + d (z * sn));
         r02 = d (d (d (x * z) * oneMinusCosine) - d (y * sn));
         r10 = d (d (d (x * y) * oneMinusCosine) - d (z * sn));
         r11 = d (yy + d (d (1 - yy) * c));
         r12 = d (d (d (y * z) * oneMinusCosine) + d (x * sn));
         r20 = d (d (d (x * z) * oneMinusCosine) + d (y * sn));
         r21 = d (d (d (y * z) * oneMinusCosine) - d (x * sn));
         r22 = d (zz + d (d (1 - zz) * c))
     in m\<lparr>m00 := s (sum_prod3 d r00 (m00 m) r01 (m10 m) r02 (m20 m)),
          m01 := s (sum_prod3 d r00 (m01 m) r01 (m11 m) r02 (m21 m)),
          m02 := s (sum_prod3 d r00 (m02 m) r01 (m12 m) r02 (m22 m)),
          m03 := s (sum_prod3 d r00 (m03 m) r01 (m13 m) r02 (m23 m)),
          m10 := s (sum_prod3 d r10 (m00 m) r11 (m10 m) r12 (m20 m)),
          m11 := s (sum_prod3 d r10 (m01 m) r11 (m11 m) r12 (m21 m)),
          m12 := s (sum_prod3 d r10 (m02 m) r11 (m12 m) r12 (m22 m)),
          m13 := s (sum_prod3 d r10 (m03 m) r11 (m13 m) r12 (m23 m)),
          m20 := s (sum_prod3 d r20 (m00 m) r21 (m10 m) r22 (m20 m)),
          m21 := s (sum_prod3 d r20 (m01 m) r21 (m11 m) r22 (m21 m)),
          m22 := s (sum_prod3 d r20 (m02 m) r21 (m12 m) r22 (m22 m)),
          m23 := s (sum_prod3 d r20 (m03 m) r21 (m13 m) r22 (m23 m))\<rparr>)"

text \<open>
  Lines 173 to 196 with the roundings: the literal \<^verbatim>\<open>0.46\<close> is the double nearest to it,
  \<^verbatim>\<open>barrelPivot[1] - 0.46\<close> is a subtraction of doubles, and the matrices and
  \<^verbatim>\<open>worldEnd\<close> are arrays of single-precision numbers. The state and the pivots are
  numbers of the caller, taken as they are.
\<close>

definition computeBarrelPivot_fp ::
  "(real \<Rightarrow> real) \<Rightarrow> (real \<Rightarrow> real) \<Rightarrow> TankState \<Rightarrow> vec3 \<Rightarrow> vec3 \<Rightarrow> vec3 \<Rightarrow> vec3" where
  "computeBarrelPivot_fp d s tankState turretPivot barrelPivot joinPivot =
     (let M_body = mat4_identity;
          M_body = mat4_translate_fp d s M_body
                     (fst (position tankState), d 0.46, snd (snd (position tankState)));
          M_body = mat4_rotateY_fp d s M_body (rotation tankState);
          M_turret = M_body;
          M_turret = mat4_translate_fp d s M_turret (neg3 turretPivot);
          M_turret = mat4_rotateY_fp d s M_turret (turretRotation tankState);
          M_turret = mat4_translate_fp d s M_turret turretPivot;
          M_barrel = M_turret;
          M_barrel = mat4_translate_fp d s M_barrel (neg3 joinPivot);
          M_barrel = mat4_rotate_fp d s M_barrel (0, 0, 1) (barrelElevation tankState);
          M_barrel = mat4_translate_fp d s M_barrel joinPivot;
          localEnd = (fst barrelPivot, d (fst (snd barrelPivot) - d 0.46),
                      snd (snd barrelPivot), 1);
          worldEnd = transformMat4_fp d s localEnd M_barrel
      in (fst worldEnd, fst (snd worldEnd), fst (snd (snd worldEnd))))"

section \<open>Vocabulary of the properties\<close>

text \<open>The vertex \<open>i\<close> of a flat array of three numbers a vertex, and its UV pair.\<close>

definition vertex :: "real list \<Rightarrow> nat \<Rightarrow> vec3" where
  "vertex a i = (a ! (i * 3), a ! (i * 3 + 1), a ! (i * 3 + 2))"

definition uv :: "real list \<Rightarrow> nat \<Rightarrow> real \<times> real" where
  "uv a i = (a ! (i * 2), a ! (i * 2 + 1))"

definition dot3 :: "vec3 \<Rightarrow> vec3 \<Rightarrow> real" where
  "dot3 a b = (case a of (ax, ay, az) \<Rightarrow> case b of (bx, by, bz) \<Rightarrow>
     ax * bx + ay * by + az * bz)"

text \<open>
  The invariant the spec puts on the mesh buffers, for a mesh of \<open>vc\<close> vertices: three
  positions and three normal components a vertex, two UV components a vertex, whole
  triangles, every index below the number of vertices.
\<close>

definition mesh_ok :: "nat \<Rightarrow> real list \<Rightarrow> real list \<Rightarrow> real list \<Rightarrow> nat list \<Rightarrow> bool" where
  "mesh_ok vc positions normals uvs indices \<longleftrightarrow>
     length positions = 3 * vc \<and> length normals = 3 * vc \<and> length uvs = 2 * vc \<and>
     length indices mod 3 = 0 \<and> list_all (\<lambda>i. i < vc) indices"

section \<open>Lemmas on computeTangents\<close>


lemma rd_Some_iff: "rd xs i = Some v \<longleftrightarrow> i < length xs \<and> v = xs ! i"
  by (auto simp: rd_def)

lemma rd_in_range: "i < length xs \<Longrightarrow> rd xs i = Some (xs ! i)"
  by (simp add: rd_def)

lemma tri_edges_Some:
  assumes "tri_edges positions uvs i0 i1 i2 = Some d"
  shows "d = \<lparr>E1x = positions ! (i1 * 3) - positions ! (i0 * 3),
              E1y = positions ! (i1 * 3 + 1) - positions ! (i0 * 3 + 1),
              E1z = positions ! (i1 * 3 + 2) - positions ! (i0 * 3 + 2),
              E2x = positions ! (i2 * 3) - positions ! (i0 * 3),
              E2y = positions ! (i2 * 3 + 1) - positions ! (i0 * 3 + 1),
              E2z = positions ! (i2 * 3 + 2) - positions ! (i0 * 3 + 2),
              dU1 = uvs ! (i1 * 2) - uvs ! (i0 * 2),
              dV1 = uvs ! (i1 * 2 + 1) - uvs ! (i0 * 2 + 1),
              dU2 = uvs ! (i2 * 2) - uvs ! (i0 * 2),
              dV2 = uvs ! (i2 * 2 + 1) - uvs ! (i0 * 2 + 1)\<rparr>"
  using assms unfolding tri_edges_def
  by (auto simp: bind_eq_Some_conv rd_Some_iff)

lemma tri_TB_solves:
  assumes "denom d \<noteq> 0"
  shows "\<exists>Tx Ty Tz Bx By Bz.
      tri_TB d = Some ((Tx, Ty, Tz), (Bx, By, Bz)) \<and>
      dU1 d * Tx + dV1 d * Bx = E1x d \<and>
      dU1 d * Ty + dV1 d * By = E1y d \<and>
      dU1 d * Tz + dV1 d * Bz = E1z d \<and>
      dU2 d * Tx + dV2 d * Bx = E2x d \<and>
      dU2 d * Ty + dV2 d * By = E2y d \<and>
      dU2 d * Tz + dV2 d * Bz = E2z d"
proof -
  define r where "r = 1 / denom d"
  have r: "fdiv 1 (denom d) = Some r" using assms by (simp add: fdiv_def r_def)
  have one: "denom d * r = 1" using assms by (simp add: r_def)
  have sys: "a * ((e1 * dV2 d - e2 * dV1 d) * r) + b * ((e2 * dU1 d - e1 * dU2 d) * r)
      = (a * (e1 * dV2 d - e2 * dV1 d) + b * (e2 * dU1 d - e1 * dU2 d)) * r" for a b e1 e2
    by (simp add: algebra_simps)
  have s1: "(dU1 d * (e1 * dV2 d - e2 * dV1 d) + dV1 d * (e2 * dU1 d - e1 * dU2 d)) * r = e1"
    for e1 e2
  proof -
    have "dU1 d * (e1 * dV2 d - e2 * dV1 d) + dV1 d * (e2 * dU1 d - e1 * dU2 d) = e1 * denom d"
      by (simp add: denom_def algebra_simps)
    then show ?thesis using one by (simp add: mult.assoc)
  qed
  have s2: "(dU2 d * (e1 * dV2 d - e2 * dV1 d) + dV2 d * (e2 * dU1 d - e1 * dU2 d)) * r = e2"
    for e1 e2
  proof -
    have "dU2 d * (e1 * dV2 d - e2 * dV1 d) + dV2 d * (e2 * dU1 d - e1 * dU2 d) = e2 * denom d"
      by (simp add: denom_def algebra_simps)
    then show ?thesis using one by (simp add: mult.assoc)
  qed
  show ?thesis
    unfolding tri_TB_def r by (simp add: sys s1 s2)
qed

lemma tri_edges_in_range:
  assumes "i0 * 3 + 2 < length positions" "i1 * 3 + 2 < length positions"
    "i2 * 3 + 2 < length positions" "i0 * 2 + 1 < length uvs" "i1 * 2 + 1 < length uvs"
    "i2 * 2 + 1 < length uvs"
  shows "\<exists>d. tri_edges positions uvs i0 i1 i2 = Some d"
  using assms unfolding tri_edges_def
  by (simp add: rd_in_range)

lemma tri_TB_Some: "denom d \<noteq> 0 \<Longrightarrow> \<exists>T B. tri_TB d = Some (T, B)"
  by (simp add: tri_TB_def fdiv_def)

lemma length_add3 [simp]: "length (add3 a i v) = length a"
  by (cases v) (simp add: add3_def Let_def)

lemma length_wr3 [simp]: "length (wr3 a i v) = length a"
  by (cases v) (simp add: wr3_def)

lemma tri_step_lengths:
  assumes "tri_step positions uvs i0 i1 i2 acc = Some acc'"
  shows "length (fst acc') = length (fst acc) \<and> length (snd acc') = length (snd acc)"
  using assms unfolding tri_step_def
  by (auto simp: bind_eq_Some_conv split: if_splits)

lemma tri_step_in_range:
  assumes "length positions = 3 * vc" "length uvs = 2 * vc" "i0 < vc" "i1 < vc" "i2 < vc"
  shows "\<exists>acc'. tri_step positions uvs i0 i1 i2 acc = Some acc'"
proof -
  from assms obtain d where d: "tri_edges positions uvs i0 i1 i2 = Some d"
    using tri_edges_in_range [of i0 positions i1 i2 uvs] by auto
  show ?thesis
  proof (cases "denom d = 0")
    case True
    then show ?thesis by (simp add: tri_step_def d)
  next
    case False
    then obtain T B where "tri_TB d = Some (T, B)" using tri_TB_Some by blast
    with False show ?thesis by (simp add: tri_step_def d)
  qed
qed

lemma accumulate_in_range:
  "length positions = 3 * vc \<Longrightarrow> length uvs = 2 * vc \<Longrightarrow>
   length indices mod 3 = 0 \<Longrightarrow> list_all (\<lambda>i. i < vc) indices \<Longrightarrow>
     \<exists>acc'. accumulate positions uvs indices acc = Some acc' \<and>
       length (fst acc') = length (fst acc) \<and> length (snd acc') = length (snd acc)"
proof (induction positions uvs indices acc rule: accumulate.induct)
  case (1 positions uvs i0 i1 i2 rest acc)
  from "1.prems" have r: "i0 < vc" "i1 < vc" "i2 < vc" "length rest mod 3 = 0"
    "list_all (\<lambda>i. i < vc) rest" by simp_all
  obtain acc1 where s: "tri_step positions uvs i0 i1 i2 acc = Some acc1"
    using tri_step_in_range [OF "1.prems"(1,2) r(1-3)] by blast
  have l: "length (fst acc1) = length (fst acc) \<and> length (snd acc1) = length (snd acc)"
    using tri_step_lengths [OF s] .
  from "1.IH" [OF s "1.prems"(1,2) r(4,5)] obtain acc' where
    "accumulate positions uvs rest acc1 = Some acc'"
    "length (fst acc') = length (fst acc1)" "length (snd acc') = length (snd acc1)" by blast
  with s l show ?case by simp
qed simp_all

lemma vertex_in_range: "i * 3 + 2 < length a \<Longrightarrow> rd3 a i = Some (vertex a i)"
  by (simp add: rd3_def vertex_def rd_in_range)

lemma vertex_wr3:
  "k * 3 + 2 < length a \<Longrightarrow> vertex (wr3 a k v) i = (if i = k then v else vertex a i)"
  by (cases v) (auto simp: vertex_def wr3_def nth_list_update)

lemma orthonormalize_Some: "\<exists>r. orthonormalize n t = Some r"
  by (cases "ortho n t") (auto simp: orthonormalize_def Let_def fdiv_def)

lemma finalize_vertex_in_range:
  assumes "i * 3 + 2 < length normals" "i * 3 + 2 < length ts" "i * 3 + 2 < length bs"
  shows "finalize_vertex normals (ts, bs) i =
     Some (wr3 ts i (the (orthonormalize (vertex normals i) (vertex ts i))),
           wr3 bs i (the (orthonormalize (vertex normals i) (vertex bs i))))"
proof -
  obtain t' where t: "orthonormalize (vertex normals i) (vertex ts i) = Some t'"
    using orthonormalize_Some by blast
  obtain b' where b: "orthonormalize (vertex normals i) (vertex bs i) = Some b'"
    using orthonormalize_Some by blast
  show ?thesis
    using assms by (simp add: finalize_vertex_def vertex_in_range t b)
qed

lemma for_each_append:
  "for_each f (xs @ ys) s = for_each f xs s \<bind> for_each f ys"
  by (induction xs arbitrary: s) (auto split: bind_splits)

lemma final_pass:
  assumes "length normals = 3 * vc" "length ts = 3 * vc" "length bs = 3 * vc"
  shows "k \<le> vc \<Longrightarrow>
    \<exists>ts' bs'. for_each (finalize_vertex normals) [0 ..< k] (ts, bs) = Some (ts', bs') \<and>
      length ts' = 3 * vc \<and> length bs' = 3 * vc \<and>
      (\<forall>i. vertex ts' i = (if i < k then the (orthonormalize (vertex normals i) (vertex ts i))
                            else vertex ts i)) \<and>
      (\<forall>i. vertex bs' i = (if i < k then the (orthonormalize (vertex normals i) (vertex bs i))
                            else vertex bs i))"
proof (induction k)
  case 0
  then show ?case using assms by simp
next
  case (Suc k)
  then obtain ts1 bs1 where
    run: "for_each (finalize_vertex normals) [0 ..< k] (ts, bs) = Some (ts1, bs1)" and
    len: "length ts1 = 3 * vc" "length bs1 = 3 * vc" and
    vt: "\<And>i. vertex ts1 i = (if i < k then the (orthonormalize (vertex normals i) (vertex ts i))
                            else vertex ts i)" and
    vb: "\<And>i. vertex bs1 i = (if i < k then the (orthonormalize (vertex normals i) (vertex bs i))
                            else vertex bs i)"
    by auto
  from Suc.prems have k: "k * 3 + 2 < 3 * vc" by simp
  have step: "finalize_vertex normals (ts1, bs1) k =
     Some (wr3 ts1 k (the (orthonormalize (vertex normals k) (vertex ts k))),
           wr3 bs1 k (the (orthonormalize (vertex normals k) (vertex bs k))))"
    using finalize_vertex_in_range [of k normals ts1 bs1] k assms(1) len
    by (simp add: vt vb)
  have "for_each (finalize_vertex normals) [0 ..< Suc k] (ts, bs) =
     Some (wr3 ts1 k (the (orthonormalize (vertex normals k) (vertex ts k))),
           wr3 bs1 k (the (orthonormalize (vertex normals k) (vertex bs k))))"
    by (simp add: for_each_append run step)
  moreover have "vertex (wr3 ts1 k v) i = (if i < Suc k then
       (if i = k then v else the (orthonormalize (vertex normals i) (vertex ts i)))
       else vertex ts i)" for v i
    using k len by (simp add: vertex_wr3 vt)
  moreover have "vertex (wr3 bs1 k v) i = (if i < Suc k then
       (if i = k then v else the (orthonormalize (vertex normals i) (vertex bs i)))
       else vertex bs i)" for v i
    using k len by (simp add: vertex_wr3 vb)
  ultimately show ?case using len by auto
qed


lemma sum_squares_zero:
  fixes a b c :: real
  shows "a * a + b * b + c * c = 0 \<longleftrightarrow> a = 0 \<and> b = 0 \<and> c = 0"
proof
  assume h: "a * a + b * b + c * c = 0"
  have "0 \<le> a * a" "0 \<le> b * b" "0 \<le> c * c" by simp_all
  with h have "a * a = 0" "b * b = 0" "c * c = 0" by linarith+
  then show "a = 0 \<and> b = 0 \<and> c = 0" by simp
qed simp

lemma vlen_zero_iff: "vlen v = 0 \<longleftrightarrow> v = (0, 0, 0)"
  by (cases v) (simp add: vlen_def sum_squares_zero)

lemma vlen_nonneg: "0 \<le> vlen v"
  by (cases v) (simp add: vlen_def)

lemma orthonormalize_zero_len:
  "vlen (ortho n t) = 0 \<Longrightarrow> orthonormalize n t = Some (0, 0, 0)"
proof -
  assume "vlen (ortho n t) = 0"
  then have "ortho n t = (0, 0, 0)" by (simp add: vlen_zero_iff)
  then show ?thesis by (simp add: orthonormalize_def Let_def vlen_def)
qed

lemma orthonormalize_zero: "orthonormalize n (0, 0, 0) = Some (0, 0, 0)"
proof -
  have "ortho n (0, 0, 0) = (0, 0, 0)" by (cases n) (simp add: ortho_def)
  then show ?thesis by (simp add: orthonormalize_zero_len vlen_zero_iff)
qed

lemma dot3_ortho:
  assumes "vlen n = 1"
  shows "dot3 (ortho n t) n = 0"
proof -
  obtain nx ny nz where n: "n = (nx, ny, nz)" by (cases n) auto
  obtain tx ty tz where t: "t = (tx, ty, tz)" by (cases t) auto
  from assms have u: "nx * nx + ny * ny + nz * nz = 1" by (simp add: n vlen_def)
  have "dot3 (ortho n t) n =
      (nx * tx + ny * ty + nz * tz) * (1 - (nx * nx + ny * ny + nz * nz))"
    by (simp add: n t dot3_def ortho_def Let_def algebra_simps)
  then show ?thesis by (simp add: u)
qed

lemma orthonormalize_unit:
  assumes n: "vlen n = 1" and r: "orthonormalize n t = Some r" and nz: "r \<noteq> (0, 0, 0)"
  shows "dot3 r n = 0 \<and> vlen r = 1"
proof -
  obtain a b c where t': "ortho n t = (a, b, c)" by (cases "ortho n t") auto
  define l where "l = vlen (ortho n t)"
  have l0: "0 < l"
  proof (rule ccontr)
    assume "\<not> 0 < l"
    then have "vlen (ortho n t) = 0" using vlen_nonneg [of "ortho n t"] by (simp add: l_def)
    then have "orthonormalize n t = Some (0, 0, 0)" by (rule orthonormalize_zero_len)
    with r nz show False by simp
  qed
  have lv: "vlen (a, b, c) = l" by (simp add: l_def t')
  have req: "r = (a / l, b / l, c / l)"
    using r l0 by (auto simp: orthonormalize_def Let_def t' lv fdiv_def)
  obtain nx ny nz where nn: "n = (nx, ny, nz)" by (cases n) auto
  have "dot3 (a, b, c) n = 0" using dot3_ortho [OF n, of t] by (simp add: t')
  then have "a * nx + b * ny + c * nz = 0" by (simp add: dot3_def nn)
  then have "(a * nx + b * ny + c * nz) / l = 0" by simp
  then have d: "dot3 r n = 0"
    by (simp add: req dot3_def nn add_divide_distrib)
  have ll: "l * l = a * a + b * b + c * c"
    by (simp add: lv[symmetric] vlen_def)
  have "(a / l) * (a / l) + (b / l) * (b / l) + (c / l) * (c / l)
      = (a * a + b * b + c * c) / (l * l)"
    by (simp add: add_divide_distrib)
  also have "\<dots> = 1" using l0 by (simp add: ll[symmetric])
  finally have "vlen r = 1" by (simp add: req vlen_def)
  with d show ?thesis by simp
qed

lemma vertex_loop_mesh: "length positions = 3 * vc \<Longrightarrow> vertex_loop positions = [0 ..< vc]"
proof -
  have "(3 * vc + 2) div 3 = vc" by presburger
  then show "length positions = 3 * vc \<Longrightarrow> vertex_loop positions = [0 ..< vc]"
    by (simp add: vertex_loop_def)
qed

lemma computeTangents_result:
  assumes "mesh_ok vc positions normals uvs indices"
  shows "\<exists>ta ba ts bs.
     accumulate positions uvs indices
       (replicate (length positions) 0, replicate (length positions) 0) = Some (ta, ba) \<and>
     computeTangents positions normals uvs indices = Some (ts, bs) \<and>
     length ts = 3 * vc \<and> length bs = 3 * vc \<and>
     (\<forall>i<vc. vertex ts i = the (orthonormalize (vertex normals i) (vertex ta i)) \<and>
             vertex bs i = the (orthonormalize (vertex normals i) (vertex ba i)))"
proof -
  from assms have len: "length positions = 3 * vc" "length normals = 3 * vc"
    "length uvs = 2 * vc" and idx: "length indices mod 3 = 0" "list_all (\<lambda>i. i < vc) indices"
    by (simp_all add: mesh_ok_def)
  let ?z = "replicate (length positions) (0::real)"
  obtain acc where acc: "accumulate positions uvs indices (?z, ?z) = Some acc"
    "length (fst acc) = length (fst (?z, ?z))" "length (snd acc) = length (snd (?z, ?z))"
    using accumulate_in_range [OF len(1,3) idx, of "(?z, ?z)"] by blast
  obtain ta ba where ab: "acc = (ta, ba)" by (cases acc) auto
  from acc ab len have l: "length ta = 3 * vc" "length ba = 3 * vc" by simp_all
  from final_pass [OF len(2) l, of vc] obtain ts bs where
    f: "for_each (finalize_vertex normals) [0 ..< vc] (ta, ba) = Some (ts, bs)"
      "length ts = 3 * vc" "length bs = 3 * vc"
      "\<forall>i. vertex ts i = (if i < vc then the (orthonormalize (vertex normals i) (vertex ta i))
                            else vertex ta i)"
      "\<forall>i. vertex bs i = (if i < vc then the (orthonormalize (vertex normals i) (vertex ba i))
                            else vertex ba i)"
    by blast
  have "computeTangents positions normals uvs indices = Some (ts, bs)"
    using acc(1) ab f(1) by (simp add: computeTangents_def vertex_loop_mesh [OF len(1)])
  with acc(1) ab f show ?thesis by simp
qed


lemma vertex_replicate_zero: "i * 3 + 2 < n \<Longrightarrow> vertex (replicate n 0) i = (0, 0, 0)"
  by (simp add: vertex_def)

lemma tri_step_equal_uvs:
  assumes len: "length positions = 3 * vc" "length uvs = 2 * vc"
    and idx: "i0 < vc" "i1 < vc" "i2 < vc"
    and same: "uv uvs i0 = uv uvs i1" "uv uvs i1 = uv uvs i2"
  shows "tri_step positions uvs i0 i1 i2 acc = Some acc"
proof -
  from len idx obtain d where d: "tri_edges positions uvs i0 i1 i2 = Some d"
    using tri_edges_in_range [of i0 positions i1 i2 uvs] by auto
  from same have "dU1 d = 0" "dV1 d = 0" "dU2 d = 0" "dV2 d = 0"
    by (simp_all add: tri_edges_Some [OF d] uv_def)
  then have "denom d = 0" by (simp add: denom_def)
  then show ?thesis by (simp add: tri_step_def d)
qed





lemma ex_upt: "[0 ..< (length [0, 0, 0, 1, 0, 0, 0, 1, 0::real] + 2) div 3] = [0, 1, 2]"
  by code_simp

lemma ex_acc: "accumulate [0, 0, 0, 1, 0, 0, 0, 1, 0] [0, 0, 1, 0, 0, 1] [0, 1, 2]
     (replicate (length [0, 0, 0, 1, 0, 0, 0, 1, 0::real]) 0,
      replicate (length [0, 0, 0, 1, 0, 0, 0, 1, 0::real]) 0) = Some ([1, 0, 0, 1, 0, 0, 1, 0, 0], [0, 1, 0, 0, 1, 0, 0, 1, 0])"
  by (simp add: tri_step_def tri_edges_def rd_def denom_def
      tri_TB_def fdiv_def add3_def Let_def eval_nat_numeral)

lemma ex_fin: "for_each (finalize_vertex [0, 0, 1, 0, 0, 1, 0, 0, 1]) [0, 1, 2]
     ([1, 0, 0, 1, 0, 0, 1, 0, 0], [0, 1, 0, 0, 1, 0, 0, 1, 0]) = 
     Some ([1, 0, 0, 1, 0, 0, 1, 0, 0], [0, 1, 0, 0, 1, 0, 0, 1, 0])"
  by (simp add: finalize_vertex_def rd3_def rd_def wr3_def orthonormalize_def
      ortho_def vlen_def fdiv_def Let_def eval_nat_numeral)

lemma example_mesh_tangents:
  "computeTangents [0, 0, 0, 1, 0, 0, 0, 1, 0] [0, 0, 1, 0, 0, 1, 0, 0, 1]
     [0, 0, 1, 0, 0, 1] [0, 1, 2] = Some ([1, 0, 0, 1, 0, 0, 1, 0, 0], [0, 1, 0, 0, 1, 0, 0, 1, 0])"
  unfolding computeTangents_def vertex_loop_def ex_upt ex_acc
  by (simp only: Option.bind.bind_lunit ex_fin)

section \<open>Properties of computeTangents\<close>

text \<open>
  Claim C1. For a triangle whose indices are in range and whose UV determinant
  \<open>denom = dU1 * dV2 - dU2 * dV1\<close> is not zero, the tangent \<open>T\<close> and the bitangent \<open>B\<close>
  that the loop body computes before it accumulates them solve the UV-gradient system:
  \<open>dU1 * T + dV1 * B = E1\<close> and \<open>dU2 * T + dV2 * B = E2\<close>, component by component, where
  \<open>E1\<close> and \<open>E2\<close> are the edges \<open>v1 - v0\<close> and \<open>v2 - v0\<close> of the triangle in the positions
  array. Arithmetic is exact.
\<close>

theorem C1_tangent_solves_uv_system:
  assumes "tri_edges positions uvs i0 i1 i2 = Some d" and "denom d \<noteq> 0"
  shows "\<exists>Tx Ty Tz Bx By Bz.
      tri_TB d = Some ((Tx, Ty, Tz), (Bx, By, Bz)) \<and>
      dU1 d * Tx + dV1 d * Bx = E1x d \<and>
      dU1 d * Ty + dV1 d * By = E1y d \<and>
      dU1 d * Tz + dV1 d * Bz = E1z d \<and>
      dU2 d * Tx + dV2 d * Bx = E2x d \<and>
      dU2 d * Ty + dV2 d * By = E2y d \<and>
      dU2 d * Tz + dV2 d * Bz = E2z d \<and>
      (E1x d, E1y d, E1z d) = (positions ! (i1 * 3) - positions ! (i0 * 3),
                               positions ! (i1 * 3 + 1) - positions ! (i0 * 3 + 1),
                               positions ! (i1 * 3 + 2) - positions ! (i0 * 3 + 2)) \<and>
      (E2x d, E2y d, E2z d) = (positions ! (i2 * 3) - positions ! (i0 * 3),
                               positions ! (i2 * 3 + 1) - positions ! (i0 * 3 + 1),
                               positions ! (i2 * 3 + 2) - positions ! (i0 * 3 + 2)) \<and>
      denom d = (uvs ! (i1 * 2) - uvs ! (i0 * 2)) * (uvs ! (i2 * 2 + 1) - uvs ! (i0 * 2 + 1))
              - (uvs ! (i2 * 2) - uvs ! (i0 * 2)) * (uvs ! (i1 * 2 + 1) - uvs ! (i0 * 2 + 1))"
proof -
  note e = tri_edges_Some [OF assms(1)]
  have edges: "(E1x d, E1y d, E1z d) = (positions ! (i1 * 3) - positions ! (i0 * 3),
                               positions ! (i1 * 3 + 1) - positions ! (i0 * 3 + 1),
                               positions ! (i1 * 3 + 2) - positions ! (i0 * 3 + 2))"
     "(E2x d, E2y d, E2z d) = (positions ! (i2 * 3) - positions ! (i0 * 3),
                               positions ! (i2 * 3 + 1) - positions ! (i0 * 3 + 1),
                               positions ! (i2 * 3 + 2) - positions ! (i0 * 3 + 2))"
     "denom d = (uvs ! (i1 * 2) - uvs ! (i0 * 2)) * (uvs ! (i2 * 2 + 1) - uvs ! (i0 * 2 + 1))
              - (uvs ! (i2 * 2) - uvs ! (i0 * 2)) * (uvs ! (i1 * 2 + 1) - uvs ! (i0 * 2 + 1))"
    by (simp_all add: e denom_def)
  from tri_TB_solves [OF assms(2)] edges show ?thesis by blast
qed

theorem C1_witness:
  "tri_edges [0, 0, 0, 1, 0, 0, 0, 1, 0] [0, 0, 1, 0, 0, 1] 0 1 2 =
     Some \<lparr>E1x = 1, E1y = 0, E1z = 0, E2x = 0, E2y = 1, E2z = 0,
           dU1 = 1, dV1 = 0, dU2 = 0, dV2 = 1\<rparr> \<and>
   denom \<lparr>E1x = 1, E1y = 0, E1z = 0, E2x = 0, E2y = 1, E2z = 0,
          dU1 = 1, dV1 = 0, dU2 = 0, dV2 = 1\<rparr> = 1 \<and>
   tri_TB \<lparr>E1x = 1, E1y = 0, E1z = 0, E2x = 0, E2y = 1, E2z = 0,
          dU1 = 1, dV1 = 0, dU2 = 0, dV2 = 1\<rparr> = Some ((1, 0, 0), (0, 1, 0))"
proof -
  let ?d = "\<lparr>E1x = 1, E1y = 0, E1z = 0, E2x = 0, E2y = 1, E2z = 0,
          dU1 = 1, dV1 = 0, dU2 = 0, dV2 = 1::real\<rparr>"
  have e: "tri_edges [0, 0, 0, 1, 0, 0, 0, 1, 0] [0, 0, 1, 0, 0, 1] 0 1 2 = Some ?d"
    by (simp add: tri_edges_def rd_def)
  have n: "denom ?d = 1" by (simp add: denom_def)
  then have nz: "denom ?d \<noteq> 0" by simp
  from C1_tangent_solves_uv_system [OF e nz] e n show ?thesis
    by auto
qed

text \<open>
  Claim C2. After the per-vertex pass of a well-formed mesh, at every vertex whose normal
  has length 1: a tangent that is not the zero vector is orthogonal to the normal and has
  length 1, and so, independently, has a bitangent that is not the zero vector.
  Arithmetic is exact.
\<close>

theorem C2_orthonormal_output:
  assumes "mesh_ok vc positions normals uvs indices" and "i < vc"
    and "vlen (vertex normals i) = 1"
  shows "\<exists>ts bs. computeTangents positions normals uvs indices = Some (ts, bs) \<and>
     (vertex ts i \<noteq> (0, 0, 0) \<longrightarrow>
        dot3 (vertex ts i) (vertex normals i) = 0 \<and> vlen (vertex ts i) = 1) \<and>
     (vertex bs i \<noteq> (0, 0, 0) \<longrightarrow>
        dot3 (vertex bs i) (vertex normals i) = 0 \<and> vlen (vertex bs i) = 1)"
proof -
  from computeTangents_result [OF assms(1)] assms(2) obtain ta ba ts bs where
    c: "computeTangents positions normals uvs indices = Some (ts, bs)" and
    t: "vertex ts i = the (orthonormalize (vertex normals i) (vertex ta i))" and
    b: "vertex bs i = the (orthonormalize (vertex normals i) (vertex ba i))"
    by blast
  obtain rt where rt: "orthonormalize (vertex normals i) (vertex ta i) = Some rt"
    using orthonormalize_Some by blast
  obtain rb where rb: "orthonormalize (vertex normals i) (vertex ba i) = Some rb"
    using orthonormalize_Some by blast
  have "vertex ts i \<noteq> (0, 0, 0) \<longrightarrow>
        dot3 (vertex ts i) (vertex normals i) = 0 \<and> vlen (vertex ts i) = 1"
    using orthonormalize_unit [OF assms(3) rt] by (simp add: t rt)
  moreover have "vertex bs i \<noteq> (0, 0, 0) \<longrightarrow>
        dot3 (vertex bs i) (vertex normals i) = 0 \<and> vlen (vertex bs i) = 1"
    using orthonormalize_unit [OF assms(3) rb] by (simp add: b rb)
  ultimately show ?thesis using c by blast
qed

theorem C2_witness:
  "mesh_ok 3 [0, 0, 0, 1, 0, 0, 0, 1, 0] [0, 0, 1, 0, 0, 1, 0, 0, 1] [0, 0, 1, 0, 0, 1] [0, 1, 2] \<and>
   vlen (vertex [0, 0, 1, 0, 0, 1, 0, 0, 1] 0) = 1 \<and>
   computeTangents [0, 0, 0, 1, 0, 0, 0, 1, 0] [0, 0, 1, 0, 0, 1, 0, 0, 1]
     [0, 0, 1, 0, 0, 1] [0, 1, 2] = Some ([1, 0, 0, 1, 0, 0, 1, 0, 0], [0, 1, 0, 0, 1, 0, 0, 1, 0]) \<and>
   vertex [1, 0, 0, 1, 0, 0, 1, 0, 0] 0 \<noteq> (0, 0, 0) \<and>
   vertex [0, 1, 0, 0, 1, 0, 0, 1, 0] 0 \<noteq> (0, 0, 0) \<and>
   dot3 (vertex [1, 0, 0, 1, 0, 0, 1, 0, 0] 0) (vertex [0, 0, 1, 0, 0, 1, 0, 0, 1] 0) = 0 \<and>
   vlen (vertex [1, 0, 0, 1, 0, 0, 1, 0, 0] 0) = 1 \<and>
   dot3 (vertex [0, 1, 0, 0, 1, 0, 0, 1, 0] 0) (vertex [0, 0, 1, 0, 0, 1, 0, 0, 1] 0) = 0 \<and>
   vlen (vertex [0, 1, 0, 0, 1, 0, 0, 1, 0] 0) = 1"
proof -
  have m: "mesh_ok 3 [0, 0, 0, 1, 0, 0, 0, 1, 0] [0, 0, 1, 0, 0, 1, 0, 0, 1]
      [0, 0, 1, 0, 0, 1] [0, 1, 2]"
    by (simp add: mesh_ok_def)
  have n: "vlen (vertex [0, 0, 1, 0, 0, 1, 0, 0, 1] 0) = 1"
    by (simp add: vlen_def vertex_def)
  have nz: "vertex [1, 0, 0, 1, 0, 0, 1, 0, 0] 0 \<noteq> (0, 0, 0)"
    "vertex [0, 1, 0, 0, 1, 0, 0, 1, 0] 0 \<noteq> (0, 0, 0)"
    by (simp_all add: vertex_def)
  from C2_orthonormal_output [where i = 0, OF m _ n] example_mesh_tangents m n nz
  show ?thesis by auto
qed

text \<open>
  Claim C3. A triangle whose UV determinant is zero contributes nothing: the loop body
  returns the accumulators it was given (no quotient by zero ends it in an error, no
  entry changes), so the loop goes on from the same accumulators.
\<close>

theorem C3_degenerate_triangle_skipped:
  assumes "tri_edges positions uvs i0 i1 i2 = Some d" and "denom d = 0"
  shows "tri_step positions uvs i0 i1 i2 acc = Some acc \<and>
         accumulate positions uvs (i0 # i1 # i2 # rest) acc = accumulate positions uvs rest acc"
  using assms by (simp add: tri_step_def)

theorem C3_witness:
  "tri_edges [0, 0, 0, 1, 0, 0, 0, 1, 0] [5, 7, 5, 7, 5, 7] 0 1 2 =
     Some \<lparr>E1x = 1, E1y = 0, E1z = 0, E2x = 0, E2y = 1, E2z = 0,
           dU1 = 0, dV1 = 0, dU2 = 0, dV2 = 0\<rparr> \<and>
   denom \<lparr>E1x = 1, E1y = 0, E1z = 0, E2x = 0, E2y = 1, E2z = 0,
          dU1 = 0, dV1 = 0, dU2 = 0, dV2 = 0\<rparr> = 0 \<and>
   tri_step [0, 0, 0, 1, 0, 0, 0, 1, 0] [5, 7, 5, 7, 5, 7] 0 1 2
      ([1, 2, 3, 4, 5, 6, 7, 8, 9], [9, 8, 7, 6, 5, 4, 3, 2, 1])
     = Some ([1, 2, 3, 4, 5, 6, 7, 8, 9], [9, 8, 7, 6, 5, 4, 3, 2, 1])"
proof -
  let ?d = "\<lparr>E1x = 1, E1y = 0, E1z = 0, E2x = 0, E2y = 1, E2z = 0,
          dU1 = 0, dV1 = 0, dU2 = 0, dV2 = 0::real\<rparr>"
  have e: "tri_edges [0, 0, 0, 1, 0, 0, 0, 1, 0] [5, 7, 5, 7, 5, 7] 0 1 2 = Some ?d"
    by (simp add: tri_edges_def rd_def)
  have n: "denom ?d = 0" by (simp add: denom_def)
  from C3_degenerate_triangle_skipped [OF e n] e n show ?thesis by simp
qed

text \<open>
  Claim C4. On a well-formed mesh \<^verbatim>\<open>computeTangents\<close> returns arrays of numbers, and at
  every vertex whose accumulated tangent has length zero once its projection onto the
  normal is subtracted the tangent of the output is the zero vector; the same holds for
  the bitangent. In particular, when the mesh has one triangle and the three UV pairs of
  that triangle are the same, every tangent and bitangent of the output is the zero
  vector.
\<close>

theorem C4_zero_length_left_zero:
  assumes "mesh_ok vc positions normals uvs indices"
  shows "\<exists>ta ba ts bs.
     accumulate positions uvs indices
       (replicate (length positions) 0, replicate (length positions) 0) = Some (ta, ba) \<and>
     computeTangents positions normals uvs indices = Some (ts, bs) \<and>
     (\<forall>i<vc. (vlen (ortho (vertex normals i) (vertex ta i)) = 0 \<longrightarrow> vertex ts i = (0, 0, 0)) \<and>
             (vlen (ortho (vertex normals i) (vertex ba i)) = 0 \<longrightarrow> vertex bs i = (0, 0, 0))) \<and>
     ((\<exists>i0 i1 i2. indices = [i0, i1, i2] \<and> uv uvs i0 = uv uvs i1 \<and> uv uvs i1 = uv uvs i2) \<longrightarrow>
        (\<forall>i<vc. vertex ts i = (0, 0, 0) \<and> vertex bs i = (0, 0, 0)))"
proof -
  from computeTangents_result [OF assms] obtain ta ba ts bs where
    a: "accumulate positions uvs indices
       (replicate (length positions) 0, replicate (length positions) 0) = Some (ta, ba)" and
    c: "computeTangents positions normals uvs indices = Some (ts, bs)" and
    v: "\<And>i. i < vc \<Longrightarrow> vertex ts i = the (orthonormalize (vertex normals i) (vertex ta i))"
       "\<And>i. i < vc \<Longrightarrow> vertex bs i = the (orthonormalize (vertex normals i) (vertex ba i))"
    by blast
  have p1: "(vlen (ortho (vertex normals i) (vertex ta i)) = 0 \<longrightarrow> vertex ts i = (0, 0, 0)) \<and>
       (vlen (ortho (vertex normals i) (vertex ba i)) = 0 \<longrightarrow> vertex bs i = (0, 0, 0))"
    if "i < vc" for i
    using that by (simp add: v orthonormalize_zero_len)
  have p2: "vertex ts i = (0, 0, 0) \<and> vertex bs i = (0, 0, 0)"
    if deg: "indices = [i0, i1, i2]" "uv uvs i0 = uv uvs i1" "uv uvs i1 = uv uvs i2"
      and i: "i < vc" for i0 i1 i2 i
  proof -
    from assms deg(1) have len: "length positions = 3 * vc" "length uvs = 2 * vc"
      and idx: "i0 < vc" "i1 < vc" "i2 < vc"
      by (simp_all add: mesh_ok_def)
    have "accumulate positions uvs indices
       (replicate (length positions) 0, replicate (length positions) 0) =
       Some (replicate (length positions) 0, replicate (length positions) 0)"
      by (simp add: deg(1) tri_step_equal_uvs [OF len idx deg(2,3)])
    with a have z: "ta = replicate (3 * vc) 0" "ba = replicate (3 * vc) 0"
      by (simp_all add: len)
    from i have "i * 3 + 2 < 3 * vc" by simp
    then have "vertex ta i = (0, 0, 0)" "vertex ba i = (0, 0, 0)"
      by (simp_all add: z vertex_replicate_zero)
    then show ?thesis using i by (simp add: v orthonormalize_zero)
  qed
  from a c p1 p2 show ?thesis by blast
qed

theorem C4_witness:
  "mesh_ok 3 [0, 0, 0, 1, 0, 0, 0, 1, 0] [0, 0, 1, 0, 0, 1, 0, 0, 1] [5, 7, 5, 7, 5, 7] [0, 1, 2] \<and>
   uv [5, 7, 5, 7, 5, 7] 0 = uv [5, 7, 5, 7, 5, 7] 1 \<and>
   uv [5, 7, 5, 7, 5, 7] 1 = uv [5, 7, 5, 7, 5, 7] 2 \<and>
   (\<exists>ts bs. computeTangents [0, 0, 0, 1, 0, 0, 0, 1, 0] [0, 0, 1, 0, 0, 1, 0, 0, 1]
       [5, 7, 5, 7, 5, 7] [0, 1, 2] = Some (ts, bs) \<and>
     vertex ts 0 = (0, 0, 0) \<and> vertex ts 1 = (0, 0, 0) \<and> vertex ts 2 = (0, 0, 0) \<and>
     vertex bs 0 = (0, 0, 0) \<and> vertex bs 1 = (0, 0, 0) \<and> vertex bs 2 = (0, 0, 0))"
proof -
  have m: "mesh_ok 3 [0, 0, 0, 1, 0, 0, 0, 1, 0] [0, 0, 1, 0, 0, 1, 0, 0, 1]
      [5, 7, 5, 7, 5, 7] [0, 1, 2]"
    by (simp add: mesh_ok_def)
  have u: "uv [5, 7, 5, 7, 5, 7] 0 = uv [5, 7, 5, 7, 5, 7] 1"
    "uv [5, 7, 5, 7, 5, 7] 1 = uv [5, 7, 5, 7, 5, 7] 2"
    by (simp_all add: uv_def)
  from C4_zero_length_left_zero [OF m] obtain ts bs where
    c: "computeTangents [0, 0, 0, 1, 0, 0, 0, 1, 0] [0, 0, 1, 0, 0, 1, 0, 0, 1]
       [5, 7, 5, 7, 5, 7] [0, 1, 2] = Some (ts, bs)" and
    z: "(\<exists>i0 i1 i2. [0, 1, 2] = [i0, i1, i2] \<and> uv [5, 7, 5, 7, 5, 7] i0 = uv [5, 7, 5, 7, 5, 7] i1
          \<and> uv [5, 7, 5, 7, 5, 7] i1 = uv [5, 7, 5, 7, 5, 7] i2) \<longrightarrow>
        (\<forall>i<3. vertex ts i = (0, 0, 0) \<and> vertex bs i = (0, 0, 0))"
    by blast
  from z u have "\<forall>i<3. vertex ts i = (0, 0, 0) \<and> vertex bs i = (0, 0, 0)" by blast
  then have "vertex ts 0 = (0, 0, 0) \<and> vertex ts 1 = (0, 0, 0) \<and> vertex ts 2 = (0, 0, 0) \<and>
     vertex bs 0 = (0, 0, 0) \<and> vertex bs 1 = (0, 0, 0) \<and> vertex bs 2 = (0, 0, 0)"
    by simp
  with m u c show ?thesis by blast
qed

section \<open>Lemmas on the matrix inverse\<close>

lemma mat4_invert_Some_iff: "(\<exists>Mi. mat4_invert M = Some Mi) \<longleftrightarrow> mat4_det M \<noteq> 0"
  unfolding mat4_invert_def mat4_det_def Let_def fdiv_def
  by (simp split: if_splits)

lemma mat4_invert_reciprocal:
  assumes "mat4_invert M = Some Mi"
  obtains d where "fdiv 1 (mat4_det M) = Some d" and "d * mat4_det M = 1"
proof -
  from assms obtain d where d: "fdiv 1 (mat4_det M) = Some d"
    unfolding mat4_invert_def mat4_det_def Let_def by (auto simp: bind_eq_Some_conv)
  then have "d * mat4_det M = 1" by (auto simp: fdiv_def split: if_splits)
  with d that show ?thesis by blast
qed

lemma invert_transform_x:
  assumes "mat4_invert M = Some Mi"
  shows "fst (transformMat4 (transformMat4 (x, y, z, w) M) Mi) = x"
proof -
  from assms obtain d where d: "fdiv 1 (mat4_det M) = Some d" and dD: "d * mat4_det M = 1"
    by (rule mat4_invert_reciprocal)
  from assms d have "fst (transformMat4 (transformMat4 (x, y, z, w) M) Mi) = (d * mat4_det M) * x"
    unfolding mat4_invert_def mat4_det_def Let_def transformMat4_def
    by clarsimp (simp add: algebra_simps)
  then show ?thesis using dD by simp
qed

lemma invert_transform_y:
  assumes "mat4_invert M = Some Mi"
  shows "fst (snd (transformMat4 (transformMat4 (x, y, z, w) M) Mi)) = y"
proof -
  from assms obtain d where d: "fdiv 1 (mat4_det M) = Some d" and dD: "d * mat4_det M = 1"
    by (rule mat4_invert_reciprocal)
  from assms d have "fst (snd (transformMat4 (transformMat4 (x, y, z, w) M) Mi)) = (d * mat4_det M) * y"
    unfolding mat4_invert_def mat4_det_def Let_def transformMat4_def
    by clarsimp (simp add: algebra_simps)
  then show ?thesis using dD by simp
qed

lemma invert_transform_z:
  assumes "mat4_invert M = Some Mi"
  shows "fst (snd (snd (transformMat4 (transformMat4 (x, y, z, w) M) Mi))) = z"
proof -
  from assms obtain d where d: "fdiv 1 (mat4_det M) = Some d" and dD: "d * mat4_det M = 1"
    by (rule mat4_invert_reciprocal)
  from assms d have "fst (snd (snd (transformMat4 (transformMat4 (x, y, z, w) M) Mi))) = (d * mat4_det M) * z"
    unfolding mat4_invert_def mat4_det_def Let_def transformMat4_def
    by clarsimp (simp add: algebra_simps)
  then show ?thesis using dD by simp
qed

lemma invert_transform_w:
  assumes "mat4_invert M = Some Mi"
  shows "snd (snd (snd (transformMat4 (transformMat4 (x, y, z, w) M) Mi))) = w"
proof -
  from assms obtain d where d: "fdiv 1 (mat4_det M) = Some d" and dD: "d * mat4_det M = 1"
    by (rule mat4_invert_reciprocal)
  from assms d have "snd (snd (snd (transformMat4 (transformMat4 (x, y, z, w) M) Mi))) = (d * mat4_det M) * w"
    unfolding mat4_invert_def mat4_det_def Let_def transformMat4_def
    by clarsimp (simp add: algebra_simps)
  then show ?thesis using dD by simp
qed

lemma invert_transform:
  assumes "mat4_invert M = Some Mi"
  shows "transformMat4 (transformMat4 (x, y, z, w) M) Mi = (x, y, z, w)"
  using invert_transform_x [OF assms, of x y z w] invert_transform_y [OF assms, of x y z w]
    invert_transform_z [OF assms, of x y z w] invert_transform_w [OF assms, of x y z w]
  by (cases "transformMat4 (transformMat4 (x, y, z, w) M) Mi") simp

lemma transformMat4_scale:
  assumes "transformMat4 (x, y, z, w) M = (a, b, c, d)"
  shows "transformMat4 (x / k, y / k, z / k, w / k) M = (a / k, b / k, c / k, d / k)"
  using assms by (auto simp: transformMat4_def add_divide_distrib)

lemma hdiv_Some: "w \<noteq> 0 \<Longrightarrow> hdiv (x, y, z, w) = Some (x / w, y / w, z / w, 1)"
  by (simp add: hdiv_def fdiv_def)

lemma hdiv_None: "hdiv (x, y, z, 0) = None"
  by (simp add: hdiv_def fdiv_def)

lemma project_Some:
  assumes "transformMat4 p M = (a, b, c, d)" and "d \<noteq> 0"
  shows "project p M (vx, vy, vw, vh) =
     Some ((0.5 * (a / d) + 0.5) * vw + vx, (0.5 * (b / d) + 0.5) * vh + vy, c / d, 1)"
  using assms by (simp add: project_def hdiv_Some)

lemma project_None:
  assumes "transformMat4 p M = (a, b, c, 0)"
  shows "project p M vp = None"
  using assms by (cases vp) (simp add: project_def hdiv_None)

lemma unproject_project:
  assumes det: "mat4_det M \<noteq> 0" and vp: "vw \<noteq> 0" "vh \<noteq> 0"
    and t: "transformMat4 (x, y, z, w) M = (a, b, c, d)" and d: "d \<noteq> 0" and w: "w \<noteq> 0"
  shows "unproject ((0.5 * (a / d) + 0.5) * vw + vx, (0.5 * (b / d) + 0.5) * vh + vy, c / d, 1)
           M (vx, vy, vw, vh) = Some (x / w, y / w, z / w, 1)"
proof -
  from det obtain Mi where Mi: "mat4_invert M = Some Mi"
    using mat4_invert_Some_iff by blast
  have q0: "2 * ((0.5 * (a / d) + 0.5) * vw + vx - vx) / vw - 1 = a / d"
    using vp by (simp add: field_simps)
  have q1: "2 * ((0.5 * (b / d) + 0.5) * vh + vy - vy) / vh - 1 = b / d"
    using vp by (simp add: field_simps)
  have "transformMat4 (transformMat4 (x / d, y / d, z / d, w / d) M) Mi
      = (x / d, y / d, z / d, w / d)"
    by (rule invert_transform [OF Mi])
  then have ret: "transformMat4 (a / d, b / d, c / d, 1) Mi = (x / d, y / d, z / d, w / d)"
    using transformMat4_scale [OF t, of d] d by simp
  have "hdiv (x / d, y / d, z / d, w / d) = Some (x / w, y / w, z / w, 1)"
    using d w by (simp add: hdiv_def fdiv_def)
  then show ?thesis
    using vp by (simp add: unproject_def Mi fdiv_def q0 q1 ret)
qed


lemma transform_origin: "transformMat4 (0, 0, 0, 1) M = (m30 M, m31 M, m32 M, m33 M)"
  by (simp add: transformMat4_def)

lemma hdiv_w:
  assumes "hdiv t = Some (a0, a1, a2, a3)"
  shows "a3 = 1"
  using assms
  by (cases t) (auto simp: hdiv_def fdiv_def bind_eq_Some_conv split: if_splits)

lemma unproject_w:
  assumes "unproject p M vp = Some (a0, a1, a2, a3)"
  shows "a3 = 1"
proof -
  obtain vx vy vw vh where vp: "vp = (vx, vy, vw, vh)" by (cases vp) auto
  obtain x y z w where p: "p = (x, y, z, w)" by (cases p) auto
  from assms show ?thesis
    by (auto simp: unproject_def vp p bind_eq_Some_conv dest: hdiv_w)
qed

lemma det_identity: "mat4_det mat4_identity = 1"
  by (simp add: mat4_det_def mat4_identity_def)

lemma invert_identity: "mat4_invert mat4_identity = Some mat4_identity"
  by (simp add: mat4_invert_def mat4_identity_def fdiv_def)

lemma transform_identity: "transformMat4 v mat4_identity = v"
  by (cases v) (simp add: transformMat4_def mat4_identity_def)

text \<open>The translation by \<open>(1, 2, 3)\<close> as a transform that is not the identity.\<close>

lemma transform_example:
  "transformMat4 (x, y, z, w) (mat4_translate mat4_identity (1, 2, 3)) =
     (x + w, y + 2 * w, z + 3 * w, w)"
  by (simp add: transformMat4_def mat4_translate_def mat4_identity_def)

lemma det_example: "mat4_det (mat4_translate mat4_identity (1, 2, 3)) = 1"
  by (simp add: mat4_det_def mat4_translate_def mat4_identity_def)

lemma invert_example:
  "mat4_invert (mat4_translate mat4_identity (1, 2, 3)) =
     Some (mat4_translate mat4_identity (- 1, - 2, - 3))"
  by (simp add: mat4_invert_def mat4_translate_def mat4_identity_def fdiv_def)

lemma project_example:
  "project (1, 1, 1, 1) (mat4_translate mat4_identity (1, 2, 3)) (0, 0, 640, 480)
     = Some (960, 960, 4, 1)"
  by (simp add: project_def transform_example hdiv_def fdiv_def)

section \<open>Properties of project, unproject and unproject_vector\<close>

text \<open>
  Claim C6, as the code has it. For a transform \<open>M\<close> whose determinant is not zero, a
  viewport whose width and height are not zero and a point \<open>p = (x, y, z, w)\<close> with
  \<open>w\<close> not zero whose image under \<open>M\<close> has a fourth component that is not zero,
  \<^verbatim>\<open>unproject(project(p, M, vp), M, vp)\<close> is \<open>p\<close> divided by its own \<open>w\<close>: the
  representative with \<open>w = 1\<close> of the same homogeneous point. It is \<open>p\<close> itself when
  \<open>w = 1\<close>. Arithmetic is exact.
\<close>

theorem C6_unproject_project:
  assumes "mat4_det M \<noteq> 0" and "vw \<noteq> 0" and "vh \<noteq> 0" and "w \<noteq> 0"
    and "snd (snd (snd (transformMat4 (x, y, z, w) M))) \<noteq> 0"
  shows "\<exists>q. project (x, y, z, w) M (vx, vy, vw, vh) = Some q \<and>
             unproject q M (vx, vy, vw, vh) = Some (x / w, y / w, z / w, 1) \<and>
             (w = 1 \<longrightarrow> unproject q M (vx, vy, vw, vh) = Some (x, y, z, w))"
proof -
  obtain a b c d where t: "transformMat4 (x, y, z, w) M = (a, b, c, d)"
    by (cases "transformMat4 (x, y, z, w) M") auto
  with assms(5) have d: "d \<noteq> 0" by simp
  let ?q = "((0.5 * (a / d) + 0.5) * vw + vx, (0.5 * (b / d) + 0.5) * vh + vy, c / d, 1)"
  have "project (x, y, z, w) M (vx, vy, vw, vh) = Some ?q"
    by (rule project_Some [OF t d])
  moreover have "unproject ?q M (vx, vy, vw, vh) = Some (x / w, y / w, z / w, 1)"
    by (rule unproject_project [OF assms(1-3) t d assms(4)])
  ultimately show ?thesis by auto
qed

theorem C6_witness:
  "mat4_det (mat4_translate mat4_identity (1, 2, 3)) = 1 \<and>
   transformMat4 (1, 1, 1, 1) (mat4_translate mat4_identity (1, 2, 3)) = (2, 3, 4, 1) \<and>
   project (1, 1, 1, 1) (mat4_translate mat4_identity (1, 2, 3)) (0, 0, 640, 480)
     = Some (960, 960, 4, 1) \<and>
   unproject (960, 960, 4, 1) (mat4_translate mat4_identity (1, 2, 3)) (0, 0, 640, 480)
     = Some (1, 1, 1, 1)"
proof -
  let ?M = "mat4_translate mat4_identity (1, 2, 3)"
  have t: "transformMat4 (1, 1, 1, 1) ?M = (2, 3, 4, 1)" by (simp add: transform_example)
  have h: "mat4_det ?M \<noteq> 0" "(640::real) \<noteq> 0" "(480::real) \<noteq> 0" "(1::real) \<noteq> 0"
    "snd (snd (snd (transformMat4 (1, 1, 1, 1) ?M))) \<noteq> 0"
    by (simp_all add: det_example t)
  from C6_unproject_project [OF h, of 0 0] project_example t det_example
  show ?thesis by auto
qed

text \<open>
  The round trip does not return every homogeneous point: with the identity transform and
  the viewport \<open>(0, 0, 2, 2)\<close> the point \<open>(2, 0, 0, 2)\<close> comes back as \<open>(1, 0, 0, 1)\<close>.
  Nor does it return a point through a viewport of width and height zero: the
  unprojection divides by them.
\<close>

theorem C6_counterexample:
  "mat4_det mat4_identity = 1 \<and>
   transformMat4 (2, 0, 0, 2) mat4_identity = (2, 0, 0, 2) \<and>
   project (2, 0, 0, 2) mat4_identity (0, 0, 2, 2) = Some (2, 1, 0, 1) \<and>
   unproject (2, 1, 0, 1) mat4_identity (0, 0, 2, 2) = Some (1, 0, 0, 1) \<and>
   unproject (2, 1, 0, 1) mat4_identity (0, 0, 2, 2) \<noteq> Some (2, 0, 0, 2) \<and>
   project (0, 0, 0, 1) mat4_identity (0, 0, 0, 0) = Some (0, 0, 0, 1) \<and>
   unproject (0, 0, 0, 1) mat4_identity (0, 0, 0, 0) = None"
  by (simp add: det_identity transform_identity project_def unproject_def invert_identity
      hdiv_def fdiv_def)


lemma unproject_vector_example:
  "unproject_vector (320, 0, 0) (mat4_translate mat4_identity (1, 2, 3)) (0, 0, 640, 480)
     = Some (1, 0, 0, 1)"
  by (simp add: unproject_vector_def unproject_def project_def invert_example transform_example
      hdiv_def fdiv_def)
     (simp add: transformMat4_def mat4_translate_def mat4_identity_def)

text \<open>
  Claim C7, as the code has it. For a transform \<open>M\<close> whose determinant and whose element
  \<open>m33\<close> (the fourth component of the image of the origin) are not zero and a viewport
  whose width and height are not zero: the projected origin unprojects to \<open>(0, 0, 0, 1)\<close>;
  \<^verbatim>\<open>unproject_vector\<close> is the one unprojection of the projected origin plus the delta;
  whenever it returns a vector, that vector has \<open>w = 1\<close> and its \<open>x\<close>, \<open>y\<close>, \<open>z\<close> are those
  of the difference of the two unprojections, whose \<open>w\<close> is \<open>0\<close>; and the zero delta gives
  \<open>(0, 0, 0, 1)\<close>, of 3D length zero. Arithmetic is exact.
\<close>

theorem C7_unproject_vector:
  assumes "mat4_det M \<noteq> 0" and "vw \<noteq> 0" and "vh \<noteq> 0" and "m33 M \<noteq> 0"
  shows "\<exists>o0 o1 o2.
      project (0, 0, 0, 1) M (vx, vy, vw, vh) = Some (o0, o1, o2, 1) \<and>
      unproject (o0, o1, o2, 1) M (vx, vy, vw, vh) = Some (0, 0, 0, 1) \<and>
      unproject_vector (d0, d1, d2) M (vx, vy, vw, vh)
        = unproject (o0 + d0, o1 + d1, o2 + d2, 1) M (vx, vy, vw, vh) \<and>
      (\<forall>a0 a1 a2 a3. unproject_vector (d0, d1, d2) M (vx, vy, vw, vh) = Some (a0, a1, a2, a3) \<longrightarrow>
         a3 = 1 \<and> unproject_difference (d0, d1, d2) M (vx, vy, vw, vh) = Some (a0, a1, a2, 0)) \<and>
      unproject_vector (0, 0, 0) M (vx, vy, vw, vh) = Some (0, 0, 0, 1) \<and>
      vlen (0, 0, 0) = 0"
proof -
  let ?vp = "(vx, vy, vw, vh)"
  let ?d = "m33 M"
  let ?o0 = "(0.5 * (m30 M / ?d) + 0.5) * vw + vx"
  let ?o1 = "(0.5 * (m31 M / ?d) + 0.5) * vh + vy"
  let ?o2 = "m32 M / ?d"
  have t: "transformMat4 (0, 0, 0, 1) M = (m30 M, m31 M, m32 M, m33 M)"
    by (rule transform_origin)
  have p: "project (0, 0, 0, 1) M ?vp = Some (?o0, ?o1, ?o2, 1)"
    by (rule project_Some [OF t assms(4)])
  have "unproject (?o0, ?o1, ?o2, 1) M ?vp = Some (0 / 1, 0 / 1, 0 / 1, 1)"
    by (rule unproject_project [OF assms(1-3) t assms(4)]) simp
  then have u: "unproject (?o0, ?o1, ?o2, 1) M ?vp = Some (0, 0, 0, 1)"
    by (simp only: div_by_1)
  have v: "unproject_vector (e0, e1, e2) M ?vp = unproject (?o0 + e0, ?o1 + e1, ?o2 + e2, 1) M ?vp"
    for e0 e1 e2
    by (simp add: unproject_vector_def p)
  have z: "unproject_vector (0, 0, 0) M ?vp = Some (0, 0, 0, 1)"
    using u by (simp only: v add.right_neutral)
  have diff: "a3 = 1 \<and> unproject_difference (d0, d1, d2) M ?vp = Some (a0, a1, a2, 0)"
    if r: "unproject_vector (d0, d1, d2) M ?vp = Some (a0, a1, a2, a3)" for a0 a1 a2 a3
  proof -
    from r have r': "unproject (?o0 + d0, ?o1 + d1, ?o2 + d2, 1) M ?vp = Some (a0, a1, a2, a3)"
      by (simp add: v)
    then have "a3 = 1" by (rule unproject_w)
    moreover have "unproject_difference (d0, d1, d2) M ?vp = Some (a0 - 0, a1 - 0, a2 - 0, a3 - 1)"
      by (simp only: unproject_difference_def p r' u Option.bind.bind_lunit prod.case)
    ultimately show ?thesis by simp
  qed
  have "vlen (0, 0, 0) = 0" by (simp add: vlen_def)
  with p u v z diff show ?thesis by blast
qed

theorem C7_witness:
  "mat4_det (mat4_translate mat4_identity (1, 2, 3)) = 1 \<and>
   m33 (mat4_translate mat4_identity (1, 2, 3)) = 1 \<and>
   unproject_vector (0, 0, 0) (mat4_translate mat4_identity (1, 2, 3)) (0, 0, 640, 480)
     = Some (0, 0, 0, 1) \<and>
   unproject_vector (320, 0, 0) (mat4_translate mat4_identity (1, 2, 3)) (0, 0, 640, 480)
     = Some (1, 0, 0, 1) \<and>
   unproject_difference (320, 0, 0) (mat4_translate mat4_identity (1, 2, 3)) (0, 0, 640, 480)
     = Some (1, 0, 0, 0)"
proof -
  let ?M = "mat4_translate mat4_identity (1, 2, 3)"
  have m: "m33 ?M = 1" by (simp add: mat4_translate_def mat4_identity_def)
  have h: "mat4_det ?M \<noteq> 0" "(640::real) \<noteq> 0" "(480::real) \<noteq> 0" "m33 ?M \<noteq> 0"
    by (simp_all add: det_example m)
  from C7_unproject_vector [OF h, of 0 0 320 0 0] unproject_vector_example det_example m
  show ?thesis by auto
qed

text \<open>
  With the identity transform, the viewport \<open>(0, 0, 2, 2)\<close> and the zero delta,
  \<^verbatim>\<open>unproject_vector\<close> returns \<open>(0, 0, 0, 1)\<close> where the difference of the two
  unprojections is \<open>(0, 0, 0, 0)\<close>. With a viewport of width and height zero it returns
  no vector at all.
\<close>

theorem C7_counterexample:
  "mat4_det mat4_identity = 1 \<and>
   unproject_vector (0, 0, 0) mat4_identity (0, 0, 2, 2) = Some (0, 0, 0, 1) \<and>
   unproject_difference (0, 0, 0) mat4_identity (0, 0, 2, 2) = Some (0, 0, 0, 0) \<and>
   unproject_vector (0, 0, 0) mat4_identity (0, 0, 2, 2)
     \<noteq> unproject_difference (0, 0, 0) mat4_identity (0, 0, 2, 2) \<and>
   unproject_vector (0, 0, 0) mat4_identity (0, 0, 0, 0) = None"
  by (simp add: det_identity transform_identity project_def unproject_def invert_identity
      unproject_vector_def unproject_difference_def hdiv_def fdiv_def)

lemma unproject_ndc:
  "unproject (X, Y, z, w) M (- 1, - 1, 2, 2) =
     mat4_invert M \<bind> (\<lambda>MVP_inv. hdiv (transformMat4 (X, Y, z, w) MVP_inv))"
  by (simp add: unproject_def fdiv_def add_divide_distrib)

text \<open>
  Claim C10. \<^verbatim>\<open>project\<close> is the homogeneous division of the transformed point followed
  by the viewport scale and offset on \<open>x\<close> and \<open>y\<close> only: its \<open>z\<close> is the depth in normalized
  device coordinates, the third component of the transformed point over the fourth, and
  its \<open>w\<close> is 1. The viewport \<open>(-1, -1, 2, 2)\<close> maps normalized device coordinates to
  themselves, and \<^verbatim>\<open>project\<close> through any viewport is \<^verbatim>\<open>project\<close> through that one
  with the scale and offset on \<open>x\<close> and \<open>y\<close>. \<^verbatim>\<open>unproject\<close> through a viewport of width
  and height not zero hands to the inverse transform the point whose \<open>x\<close> and \<open>y\<close> are the
  inverse scale and offset of the input's and whose \<open>z\<close> and \<open>w\<close> are the input's own, so
  it is \<^verbatim>\<open>unproject\<close> through \<open>(-1, -1, 2, 2)\<close> of that point. With the identity
  transform and \<open>w = 1\<close> the \<open>z\<close> of the input is the \<open>z\<close> of the result of either function.
\<close>

theorem C10_viewport_on_x_and_y_only:
  "project p M (vx, vy, vw, vh) =
     map_option (\<lambda>(nx, ny, nz, nw). ((0.5 * nx + 0.5) * vw + vx, (0.5 * ny + 0.5) * vh + vy, nz, nw))
       (hdiv (transformMat4 p M)) \<and>
   project p M (vx, vy, vw, vh) =
     map_option (\<lambda>(nx, ny, nz, nw). ((0.5 * nx + 0.5) * vw + vx, (0.5 * ny + 0.5) * vh + vy, nz, nw))
       (project p M (- 1, - 1, 2, 2)) \<and>
   (project p M (vx, vy, vw, vh) = Some (sx, sy, sz, sw) \<longrightarrow>
      sz = fst (snd (snd (transformMat4 p M))) / snd (snd (snd (transformMat4 p M))) \<and> sw = 1) \<and>
   project (x, y, z, 1) mat4_identity (vx, vy, vw, vh) =
     Some ((0.5 * x + 0.5) * vw + vx, (0.5 * y + 0.5) * vh + vy, z, 1) \<and>
   unproject (x, y, z, w) M (- 1, - 1, 2, 2) =
     mat4_invert M \<bind> (\<lambda>MVP_inv. hdiv (transformMat4 (x, y, z, w) MVP_inv)) \<and>
   (vw \<noteq> 0 \<and> vh \<noteq> 0 \<longrightarrow>
      unproject (x, y, z, w) M (vx, vy, vw, vh) =
        mat4_invert M \<bind> (\<lambda>MVP_inv. hdiv (transformMat4
          (2 * (x - vx) / vw - 1, 2 * (y - vy) / vh - 1, z, w) MVP_inv)) \<and>
      unproject (x, y, z, w) M (vx, vy, vw, vh) =
        unproject (2 * (x - vx) / vw - 1, 2 * (y - vy) / vh - 1, z, w) M (- 1, - 1, 2, 2) \<and>
      unproject (x, y, z, 1) mat4_identity (vx, vy, vw, vh) =
        Some (2 * (x - vx) / vw - 1, 2 * (y - vy) / vh - 1, z, 1))"
proof -
  obtain a b c d where t: "transformMat4 p M = (a, b, c, d)"
    by (cases "transformMat4 p M") auto
  have ndc: "project p M (vx, vy, vw, vh) =
     map_option (\<lambda>(nx, ny, nz, nw). ((0.5 * nx + 0.5) * vw + vx, (0.5 * ny + 0.5) * vh + vy, nz, nw))
       (hdiv (transformMat4 p M))"
    by (cases "hdiv (transformMat4 p M)") (auto simp: project_def)
  have pv: "project p M (vx, vy, vw, vh) =
     map_option (\<lambda>(nx, ny, nz, nw). ((0.5 * nx + 0.5) * vw + vx, (0.5 * ny + 0.5) * vh + vy, nz, nw))
       (project p M (- 1, - 1, 2, 2))"
  proof (cases "d = 0")
    case True
    with t show ?thesis by (simp add: project_None)
  next
    case False
    show ?thesis by (simp add: project_Some [OF t False])
  qed
  have depth: "sz = c / d \<and> sw = 1" if "project p M (vx, vy, vw, vh) = Some (sx, sy, sz, sw)"
  proof (cases "d = 0")
    case True
    with t that show ?thesis by (simp add: project_None)
  next
    case False
    with that show ?thesis by (simp add: project_Some [OF t False])
  qed
  have pid: "project (x, y, z, 1) mat4_identity (vx, vy, vw, vh) =
     Some ((0.5 * x + 0.5) * vw + vx, (0.5 * y + 0.5) * vh + vy, z, 1)"
    by (simp add: project_def transform_identity hdiv_Some)
  have un: "unproject (x, y, z, w) M (- 1, - 1, 2, 2) =
     mat4_invert M \<bind> (\<lambda>MVP_inv. hdiv (transformMat4 (x, y, z, w) MVP_inv))"
    by (rule unproject_ndc)
  have uv: "unproject (x, y, z, w) M (vx, vy, vw, vh) =
        mat4_invert M \<bind> (\<lambda>MVP_inv. hdiv (transformMat4
          (2 * (x - vx) / vw - 1, 2 * (y - vy) / vh - 1, z, w) MVP_inv))"
    if "vw \<noteq> 0" "vh \<noteq> 0"
    using that by (simp add: unproject_def fdiv_def)
  have uu: "unproject (x, y, z, w) M (vx, vy, vw, vh) =
      unproject (2 * (x - vx) / vw - 1, 2 * (y - vy) / vh - 1, z, w) M (- 1, - 1, 2, 2)"
    if "vw \<noteq> 0" "vh \<noteq> 0"
    using uv [OF that] by (simp only: unproject_ndc)
  have uid: "unproject (x, y, z, 1) mat4_identity (vx, vy, vw, vh) =
        Some (2 * (x - vx) / vw - 1, 2 * (y - vy) / vh - 1, z, 1)"
    if "vw \<noteq> 0" "vh \<noteq> 0"
    using that by (simp add: unproject_def fdiv_def invert_identity transform_identity hdiv_Some)
  from ndc pv depth pid un uv uu uid t show ?thesis by simp
qed

theorem C10_witness:
  "project (1, 1, 1, 1) (mat4_translate mat4_identity (1, 2, 3)) (0, 0, 640, 480)
     = Some (960, 960, 4, 1) \<and>
   project (1, 1, 1, 1) (mat4_translate mat4_identity (1, 2, 3)) (- 1, - 1, 2, 2)
     = Some (2, 3, 4, 1) \<and>
   transformMat4 (1, 1, 1, 1) (mat4_translate mat4_identity (1, 2, 3)) = (2, 3, 4, 1) \<and>
   unproject (960, 960, 4, 1) (mat4_translate mat4_identity (1, 2, 3)) (0, 0, 640, 480)
     = unproject (2, 3, 4, 1) (mat4_translate mat4_identity (1, 2, 3)) (- 1, - 1, 2, 2) \<and>
   unproject (960, 960, 4, 1) mat4_identity (0, 0, 640, 480) = Some (2, 3, 4, 1)"
proof -
  let ?M = "mat4_translate mat4_identity (1, 2, 3)"
  have t: "transformMat4 (1, 1, 1, 1) ?M = (2, 3, 4, 1)" by (simp add: transform_example)
  have n: "project (1, 1, 1, 1) ?M (- 1, - 1, 2, 2) = Some (2, 3, 4, 1)"
    by (simp add: project_def t hdiv_def fdiv_def)
  have v: "(640::real) \<noteq> 0 \<and> (480::real) \<noteq> 0" by simp
  from C10_viewport_on_x_and_y_only [of "(1, 1, 1, 1)" ?M 0 0 640 480 960 960 4 1 960 960 4 1]
  have "unproject (960, 960, 4, 1) ?M (0, 0, 640, 480) =
        unproject (2 * (960 - 0) / 640 - 1, 2 * (960 - 0) / 480 - 1, 4, 1) ?M (- 1, - 1, 2, 2) \<and>
      unproject (960, 960, 4, 1) mat4_identity (0, 0, 640, 480) =
        Some (2 * (960 - 0) / 640 - 1, 2 * (960 - 0) / 480 - 1, 4, 1)"
    using v by blast
  then show ?thesis using project_example n t by simp
qed

section \<open>Properties of computeBarrelPivot\<close>

lemmas barrel_defs = computeBarrelPivot_def Let_def mat4_identity_def mat4_translate_def
  mat4_rotateY_def mat4_rotate_def neg3_def transformMat4_def

text \<open>The model with both roundings the identity is the model in exact arithmetic.\<close>

lemma computeBarrelPivot_fp_exact:
  "computeBarrelPivot_fp (\<lambda>x. x) (\<lambda>x. x) tankState turretPivot barrelPivot joinPivot =
     computeBarrelPivot tankState turretPivot barrelPivot joinPivot"
proof -
  have t: "transformMat4_fp (\<lambda>x. x) (\<lambda>x. x) v m = transformMat4 v m" for v m
    by (simp only: transformMat4_fp_def transformMat4_def sum_prod3_def)
  have tr: "mat4_translate_fp (\<lambda>x. x) (\<lambda>x. x) m v = mat4_translate m v" for v m
    by (simp only: mat4_translate_fp_def mat4_translate_def sum_prod3_def)
  have ry: "mat4_rotateY_fp (\<lambda>x. x) (\<lambda>x. x) m a = mat4_rotateY m a" for m a
    by (simp only: mat4_rotateY_fp_def mat4_rotateY_def)
  have r: "mat4_rotate_fp (\<lambda>x. x) (\<lambda>x. x) m ax a = mat4_rotate m ax a" for m ax a
    by (simp only: mat4_rotate_fp_def mat4_rotate_def sum_prod3_def)
  show ?thesis
    by (simp only: computeBarrelPivot_fp_def computeBarrelPivot_def t tr ry r)
qed

text \<open>
  Claim C5, as the code has it. In exact arithmetic, that is with no rounding, with the
  position \<open>(0, 0, 0)\<close>, the three angles zero and \<^verbatim>\<open>turretPivot\<close> and \<^verbatim>\<open>joinPivot\<close> at
  \<open>(0, 0, 0)\<close>, \<^verbatim>\<open>computeBarrelPivot\<close> returns \<^verbatim>\<open>barrelPivot\<close>, whatever it is: the 0.46
  of the body transform cancels the 0.46 taken from the local \<open>y\<close>.
\<close>

theorem C5_rest_pose:
  "computeBarrelPivot \<lparr>position = (0, 0, 0), rotation = 0, turretRotation = 0,
       barrelElevation = 0\<rparr> (0, 0, 0) (bx, by, bz) (0, 0, 0) = (bx, by, bz) \<and>
   computeBarrelPivot_fp (\<lambda>x. x) (\<lambda>x. x) \<lparr>position = (0, 0, 0), rotation = 0,
       turretRotation = 0, barrelElevation = 0\<rparr> (0, 0, 0) (bx, by, bz) (0, 0, 0) = (bx, by, bz)"
  by (simp add: computeBarrelPivot_fp_exact) (simp add: barrel_defs)

subsection \<open>The rest pose with the roundings of the code\<close>

lemma rne_of_int: "rne (of_int k) = k"
  by (simp add: rne_def)

lemma floor_log2_eq:
  assumes "x \<noteq> 0" and "2 powr of_int e \<le> \<bar>x\<bar>" and "\<bar>x\<bar> < 2 powr of_int (e + 1)"
  shows "\<lfloor>log 2 \<bar>x\<bar>\<rfloor> = e"
proof -
  have pos: "0 < \<bar>x\<bar>" using assms(1) by simp
  have "of_int e \<le> log 2 \<bar>x\<bar>" using assms(2) pos by (simp add: le_log_iff)
  moreover have "log 2 \<bar>x\<bar> < of_int e + 1" using assms(3) pos by (simp add: log_less_iff)
  ultimately show ?thesis by (simp add: floor_eq_iff)
qed

lemma round_to_eval:
  assumes "x \<noteq> 0" and "2 powr of_int e \<le> \<bar>x\<bar>" and "\<bar>x\<bar> < 2 powr of_int (e + 1)"
  shows "round_to p x =
     of_int (rne (x / 2 powr of_int (e - (int p - 1)))) * 2 powr of_int (e - (int p - 1))"
  using assms(1) by (simp add: round_to_def floor_log2_eq [OF assms] Let_def)

lemma fl64_046: "fl64 (23 / 50) = 8286623314361713 / 18014398509481984"
  unfolding fl64_def
  by (subst round_to_eval [where e = "- 2"]) (simp_all add: rne_def Let_def powr_minus_divide)

lemma fl32_d46: "fl32 (8286623314361713 / 18014398509481984) = 15435039 / 33554432"
  unfolding fl32_def
  by (subst round_to_eval [where e = "- 2"]) (simp_all add: rne_def Let_def powr_minus_divide)

lemma fl32_diff: "fl32 (150323855 / 18014398509481984) = 9395241 / 1125899906842624"
  unfolding fl32_def
  by (subst round_to_eval [where e = "- 27"]) (simp_all add: rne_def Let_def powr_minus_divide)


lemma round_to_representable:
  assumes x: "x = of_int k * 2 powr of_int e" and k: "\<bar>k\<bar> < 2 ^ p"
  shows "round_to p x = x"
proof (cases "x = 0")
  case True
  then show ?thesis by (simp add: round_to_def)
next
  case False
  define E where "E = \<lfloor>log 2 \<bar>x\<bar>\<rfloor>"
  define n where "n = e - (E - (int p - 1))"
  have k0: "k \<noteq> 0" using False x by auto
  have absx: "\<bar>x\<bar> = of_int \<bar>k\<bar> * 2 powr of_int e" by (simp add: x abs_mult)
  have "of_int \<bar>k\<bar> < (2::real) ^ p" using k by (metis of_int_less_iff of_int_numeral of_int_power)
  then have "\<bar>x\<bar> < 2 ^ p * 2 powr of_int e" unfolding absx by simp
  also have "\<dots> = 2 powr (of_int (int p + e))" by (simp add: powr_add powr_realpow)
  finally have "log 2 \<bar>x\<bar> < of_int (int p + e)"
    using False by (simp add: log_less_iff)
  then have "E < int p + e" unfolding E_def by (simp add: floor_less_iff)
  then have n: "0 \<le> n" by (simp add: n_def)
  have "(of_int e :: real) = of_int n + of_int (E - (int p - 1))"
    by (simp add: n_def)
  then have split: "(2::real) powr of_int e = 2 powr of_int n * 2 powr of_int (E - (int p - 1))"
    by (simp only: powr_add)
  have "2 powr of_int n = (2::real) ^ nat n" using n
    by (metis of_int_of_nat_eq of_nat_nat powr_realpow zero_less_numeral)
  then have q: "x / 2 powr of_int (E - (int p - 1)) = of_int (k * 2 ^ nat n)"
    by (simp add: x split)
  have "round_to p x = of_int (rne (x / 2 powr of_int (E - (int p - 1)))) *
      2 powr of_int (E - (int p - 1))"
    using False by (simp add: round_to_def E_def Let_def)
  also have "\<dots> = of_int (k * 2 ^ nat n) * 2 powr of_int (E - (int p - 1))"
    by (simp only: q rne_of_int)
  also have "\<dots> = x"
  proof -
    have c: "a \<noteq> 0 \<Longrightarrow> x / a * a = x" for a :: real by simp
    have "(2::real) powr of_int (E - (int p - 1)) \<noteq> 0" by simp
    then show ?thesis unfolding q [symmetric] by (rule c)
  qed
  finally show ?thesis .
qed

lemma fl64_0: "fl64 0 = 0" and fl32_0: "fl32 0 = 0"
  by (simp_all add: fl64_def fl32_def round_to_def)

lemma fl64_1: "fl64 1 = 1"
  unfolding fl64_def by (rule round_to_representable [where k = 1 and e = 0]) simp_all

lemma fl32_1: "fl32 1 = 1"
  unfolding fl32_def by (rule round_to_representable [where k = 1 and e = 0]) simp_all

lemma fl64_d46:
  "fl64 (8286623314361713 / 18014398509481984) = 8286623314361713 / 18014398509481984"
  unfolding fl64_def
  by (rule round_to_representable [where k = 8286623314361713 and e = "- 54"])
     (simp_all add: powr_minus_divide)

lemma fl64_neg_d46:
  "fl64 (- (8286623314361713 / 18014398509481984)) = - (8286623314361713 / 18014398509481984)"
  unfolding fl64_def
  by (rule round_to_representable [where k = "- 8286623314361713" and e = "- 54"])
     (simp_all add: powr_minus_divide)

lemma fl64_f46: "fl64 (15435039 / 33554432) = 15435039 / 33554432"
  unfolding fl64_def
  by (rule round_to_representable [where k = 15435039 and e = "- 25"])
     (simp_all add: powr_minus_divide)

lemma fl32_f46: "fl32 (15435039 / 33554432) = 15435039 / 33554432"
  unfolding fl32_def
  by (rule round_to_representable [where k = 15435039 and e = "- 25"])
     (simp_all add: powr_minus_divide)

lemma fl64_diff: "fl64 (150323855 / 18014398509481984) = 150323855 / 18014398509481984"
  unfolding fl64_def
  by (rule round_to_representable [where k = 150323855 and e = "- 54"])
     (simp_all add: powr_minus_divide)

lemmas fl_values = fl64_0 fl32_0 fl64_1 fl32_1 fl64_046 fl32_d46 fl64_d46 fl64_neg_d46
  fl64_f46 fl32_f46 fl64_diff fl32_diff

text \<open>
  With the roundings of the code the cancellation is not exact. The matrix holds the
  single-precision number nearest to 0.46, which is \<open>15435039 / 2 ^ 25\<close>, and the local
  \<open>y\<close> is taken from the double nearest to 0.46, which is smaller: at
  \<^verbatim>\<open>barrelPivot = (0, 0, 0)\<close> the \<open>y\<close> returned is \<open>9395241 / 2 ^ 50\<close>, about
  \<open>8.34e-9\<close>, and not \<open>0\<close>.
\<close>

theorem C5_counterexample:
  "computeBarrelPivot_fp fl64 fl32
      \<lparr>position = (0, 0, 0), rotation = 0, turretRotation = 0, barrelElevation = 0\<rparr>
      (0, 0, 0) (0, 0, 0) (0, 0, 0) = (0, 9395241 / 1125899906842624, 0) \<and>
   computeBarrelPivot_fp fl64 fl32
      \<lparr>position = (0, 0, 0), rotation = 0, turretRotation = 0, barrelElevation = 0\<rparr>
      (0, 0, 0) (0, 0, 0) (0, 0, 0) \<noteq> (0, 0, 0)"
  by (simp add: computeBarrelPivot_fp_def Let_def mat4_identity_def mat4_translate_fp_def
      mat4_rotateY_fp_def mat4_rotate_fp_def transformMat4_fp_def neg3_def sum_prod3_def
      fl_values)

text \<open>
  Claim C8. Two tank states that differ at most in the \<open>y\<close> of their position give the
  same world point, for the same pivots.
\<close>

theorem C8_position_y_unused:
  assumes "fst (position s1) = fst (position s2)"
    and "snd (snd (position s1)) = snd (snd (position s2))"
    and "rotation s1 = rotation s2"
    and "turretRotation s1 = turretRotation s2"
    and "barrelElevation s1 = barrelElevation s2"
  shows "computeBarrelPivot s1 turretPivot barrelPivot joinPivot =
         computeBarrelPivot s2 turretPivot barrelPivot joinPivot"
  using assms by (simp add: computeBarrelPivot_def)

theorem C8_witness:
  "computeBarrelPivot \<lparr>position = (1, 5, 2), rotation = 1, turretRotation = 2,
       barrelElevation = 3\<rparr> (1, 2, 3) (4, 5, 6) (7, 8, 9) =
   computeBarrelPivot \<lparr>position = (1, - 7, 2), rotation = 1, turretRotation = 2,
       barrelElevation = 3\<rparr> (1, 2, 3) (4, 5, 6) (7, 8, 9)"
  by (rule C8_position_y_unused) simp_all







end
